theory Spec2Isabelle
  imports Complex_Main "HOL-Library.AList"
begin

section \<open>Data model\<close>

text \<open>
  The script \<^verbatim>\<open>script.py\<close> has two functions: \<^verbatim>\<open>preprocess_data\<close> reads
  one value per day and category (PR, GHI) from files named by their date and merges them
  into one table, and \<^verbatim>\<open>plot_pr_graph\<close> derives the columns and numbers of a chart
  from that table.

  Modelling decisions:
  \<^item> a calendar date is its proleptic Gregorian ordinal (\<^verbatim>\<open>date.toordinal()\<close>), an
    \<open>int\<close>; a difference of dates is a number of days. The range of pandas'
    \<^verbatim>\<open>Timestamp\<close> is not modelled;
  \<^item> a float is a \<open>real\<close>, and a float column that may hold NaN is a
    \<open>real option\<close> with \<open>None\<close> for NaN (and for Python's \<^verbatim>\<open>None\<close>, which
    \<^verbatim>\<open>pd.to_numeric\<close> turns into NaN). Rounding errors of floats are not modelled;
  \<^item> a DataFrame is the list of its rows, in row order; the empty DataFrame is \<open>[]\<close>.
    \<^verbatim>\<open>sort_values\<close> is \<open>sort_key\<close>, a stable sort; the tables that
    \<^verbatim>\<open>preprocess_data\<close> returns have pairwise different dates, and there every
    sorting algorithm gives the same order;
  \<^item> a Python dict is an association list in insertion order: \<open>AList.update\<close>
    replaces the value of a key in place and appends a new key at the end;
  \<^item> an exception raised inside the \<^verbatim>\<open>try\<close> block is a value \<open>Inl e\<close>;
  \<^item> printing, the CSV export, and drawing are effects that no result depends on; the
    model returns what is handed to the drawing calls.
\<close>

type_synonym date = int

datatype error = ValueError | ReadError

text \<open>
  One file met by \<^verbatim>\<open>os.walk\<close>: its name, and what
  \<^verbatim>\<open>pd.read_csv(full_path).select_dtypes(include=['number']).values\<close> gives for it:
  the rows of the numeric columns, or \<open>Inl\<close> when \<^verbatim>\<open>read_csv\<close> raises.
\<close>

record csv_file =
  fname :: string
  read_csv :: "error + real option list list"

record row =
  Date :: date
  GHI :: "real option"
  PR :: "real option"

record point = row +
  PR_MA_30 :: "real option"
  Budget_PR :: real
  Color :: string

text \<open>A formatted string is kept as its pieces: the literal text and the values formatted into it.\<close>

datatype piece = Lit string | Int_piece nat | Float_piece real | Percent1 real

record chart =
  points :: "point list"
  title :: "date \<times> date"
  budget_label :: "piece list"
  annotation :: "piece list"
  avg_box :: "real option list"
  pr_lifetime :: "real option"

section \<open>Dates\<close>

text \<open>The functions of Python's \<^verbatim>\<open>datetime\<close> module behind \<^verbatim>\<open>date.toordinal\<close>.\<close>

definition is_leap :: "nat \<Rightarrow> bool" where
  "is_leap year = (year mod 4 = 0 \<and> (year mod 100 \<noteq> 0 \<or> year mod 400 = 0))"

definition days_before_year :: "nat \<Rightarrow> nat" where
  "days_before_year year = (let y = year - 1 in y * 365 + y div 4 - y div 100 + y div 400)"

definition DAYS_IN_MONTH :: "nat list" where
  "DAYS_IN_MONTH = [0, 31, 28, 31, 30, 31, 30, 31, 31, 30, 31, 30, 31]"

definition days_in_month :: "nat \<Rightarrow> nat \<Rightarrow> nat" where
  "days_in_month year month =
     (if month = 2 \<and> is_leap year then 29 else DAYS_IN_MONTH ! month)"

definition days_before_month :: "nat \<Rightarrow> nat \<Rightarrow> nat" where
  "days_before_month year month =
     sum_list (take (month - 1) (drop 1 DAYS_IN_MONTH)) + (if month > 2 \<and> is_leap year then 1 else 0)"

definition ymd2ord :: "nat \<Rightarrow> nat \<Rightarrow> nat \<Rightarrow> date" where
  "ymd2ord year month day = int (days_before_year year + days_before_month year month + day)"

text \<open>
  \<^verbatim>\<open>datetime.strptime(s, "%Y-%m-%d").date()\<close> on an ASCII string. The format is the
  regular expression
  \<^verbatim>\<open>(\d\d\d\d)-(1[0-2]|0[1-9]|[1-9])-(3[01]|[12]\d|0[1-9]|[1-9]| [1-9])\<close>,
  matched at the start of the string; text left over after the match, a year 0 and a day
  that the month does not have raise \<^verbatim>\<open>ValueError\<close>.
\<close>

fun digit_in :: "nat \<Rightarrow> nat \<Rightarrow> string \<Rightarrow> (nat \<times> string) option" where
  "digit_in lo hi [] = None"
| "digit_in lo hi (c # cs) =
     (let n = (of_char c :: nat)
      in if 48 + lo \<le> n \<and> n \<le> 48 + hi then Some (n - 48, cs) else None)"

definition digits2 :: "nat \<Rightarrow> nat \<Rightarrow> nat \<Rightarrow> nat \<Rightarrow> string \<Rightarrow> (nat \<times> string) option" where
  "digits2 lo1 hi1 lo2 hi2 s =
     (case digit_in lo1 hi1 s of
        None \<Rightarrow> None
      | Some (a, s') \<Rightarrow>
          (case digit_in lo2 hi2 s' of
             None \<Rightarrow> None
           | Some (b, s'') \<Rightarrow> Some (10 * a + b, s'')))"

definition orelse :: "'a option \<Rightarrow> 'a option \<Rightarrow> 'a option" where
  "orelse a b = (case a of None \<Rightarrow> b | Some x \<Rightarrow> Some x)"

fun lit :: "char \<Rightarrow> string \<Rightarrow> string option" where
  "lit c [] = None"
| "lit c (x # xs) = (if x = c then Some xs else None)"

definition match_Y :: "string \<Rightarrow> (nat \<times> string) option" where
  "match_Y s =
     (case digits2 0 9 0 9 s of
        None \<Rightarrow> None
      | Some (hi, s') \<Rightarrow>
          (case digits2 0 9 0 9 s' of
             None \<Rightarrow> None
           | Some (lo, s'') \<Rightarrow> Some (100 * hi + lo, s'')))"

definition match_m :: "string \<Rightarrow> (nat \<times> string) option" where
  "match_m s = orelse (digits2 1 1 0 2 s) (orelse (digits2 0 0 1 9 s) (digit_in 1 9 s))"

definition match_d :: "string \<Rightarrow> (nat \<times> string) option" where
  "match_d s =
     orelse (digits2 3 3 0 1 s)
       (orelse (digits2 1 2 0 9 s)
          (orelse (digits2 0 0 1 9 s)
             (orelse (digit_in 1 9 s)
                (case lit CHR '' '' s of None \<Rightarrow> None | Some s' \<Rightarrow> digit_in 1 9 s'))))"

definition strptime :: "string \<Rightarrow> error + date" where
  "strptime s =
     (case match_Y s of
        None \<Rightarrow> Inl ValueError
      | Some (year, s1) \<Rightarrow>
     (case lit CHR ''-'' s1 of
        None \<Rightarrow> Inl ValueError
      | Some s2 \<Rightarrow>
     (case match_m s2 of
        None \<Rightarrow> Inl ValueError
      | Some (month, s3) \<Rightarrow>
     (case lit CHR ''-'' s3 of
        None \<Rightarrow> Inl ValueError
      | Some s4 \<Rightarrow>
     (case match_d s4 of
        None \<Rightarrow> Inl ValueError
      | Some (day, s5) \<Rightarrow>
          if s5 \<noteq> [] then Inl ValueError
          else if year < 1 then Inl ValueError
          else if day > days_in_month year month then Inl ValueError
          else Inr (ymd2ord year month day))))))"

section \<open>Step 1: \<^verbatim>\<open>preprocess_data\<close>\<close>

definition endswith :: "string \<Rightarrow> string \<Rightarrow> bool" where
  "endswith s suffix = (length suffix \<le> length s \<and> drop (length s - length suffix) s = suffix)"

text \<open>\<^verbatim>\<open>file.replace(".csv", "")\<close>: every occurrence is removed, scanning from the left.\<close>

fun replace_csv :: "string \<Rightarrow> string" where
  "replace_csv [] = []"
| "replace_csv (c # cs) =
     (if take 4 (c # cs) = ''.csv'' then replace_csv (drop 3 cs) else c # replace_csv cs)"

fun dropna :: "'a option list \<Rightarrow> 'a list" where
  "dropna [] = []"
| "dropna (None # xs) = dropna xs"
| "dropna (Some x # xs) = x # dropna xs"

text \<open>
  The body of the \<^verbatim>\<open>try\<close> block up to the value: the date of the file name and the
  first numeric cell that is not NaN, in row-major order (\<^verbatim>\<open>flatten\<close>), or
  \<^verbatim>\<open>None\<close> when there is no such cell.
\<close>

definition read_value :: "csv_file \<Rightarrow> error + (date \<times> real option)" where
  "read_value f =
     (let file_name = replace_csv (fname f)
      in case strptime file_name of
           Inl e \<Rightarrow> Inl e
         | Inr date \<Rightarrow>
             (case read_csv f of
                Inl e \<Rightarrow> Inl e
              | Inr df_csv \<Rightarrow>
                  (let value = dropna (concat df_csv);
                       value = (if length value > 0 then Some (value ! 0) else None)
                   in Inr (date, value))))"

type_synonym data_dict = "(date \<times> (string \<times> real option) list) list"

text \<open>\<^verbatim>\<open>data_dict.setdefault(date, {})[key] = value\<close>\<close>

definition setdefault_set :: "data_dict \<Rightarrow> date \<Rightarrow> string \<Rightarrow> real option \<Rightarrow> data_dict" where
  "setdefault_set data_dict date key value =
     (let values = (case map_of data_dict date of None \<Rightarrow> [] | Some vs \<Rightarrow> vs)
      in AList.update date (AList.update key value values) data_dict)"

text \<open>\<^verbatim>\<open>values.get(key)\<close>: \<^verbatim>\<open>None\<close> for a key that is absent.\<close>

definition dict_get :: "(string \<times> real option) list \<Rightarrow> string \<Rightarrow> real option" where
  "dict_get values key = (case map_of values key of None \<Rightarrow> None | Some v \<Rightarrow> v)"

text \<open>
  What \<^verbatim>\<open>data_dict.get(date, {}).get(key)\<close> would give; the inner \<open>None\<close> is a stored
  \<^verbatim>\<open>None\<close>, the outer one a date or a key that is absent. Used to state what the loop
  has stored.
\<close>

definition stored :: "data_dict \<Rightarrow> date \<Rightarrow> string \<Rightarrow> real option option" where
  "stored data_dict date key =
     (case map_of data_dict date of None \<Rightarrow> None | Some values \<Rightarrow> map_of values key)"

text \<open>One turn of the innermost loop, for one file of one folder.\<close>

definition visit_file :: "string \<Rightarrow> csv_file \<Rightarrow> data_dict \<Rightarrow> data_dict" where
  "visit_file folder f data_dict =
     (if endswith (fname f) ''.csv'' then
        (case read_value f of
           Inl e \<Rightarrow> data_dict
         | Inr (date, value) \<Rightarrow>
             if folder = ''PR'' then setdefault_set data_dict date ''PR'' value
             else if folder = ''GHI'' then setdefault_set data_dict date ''GHI'' value
             else data_dict)
      else data_dict)"

text \<open>
  The directory \<^verbatim>\<open>base_dir\<close>: the folders in it, each with the files that
  \<^verbatim>\<open>os.walk\<close> meets under it, in the order of the walk. Walking a folder that does
  not exist yields nothing.
\<close>

type_synonym directory = "(string \<times> csv_file list) list"

definition os_walk :: "directory \<Rightarrow> string \<Rightarrow> csv_file list" where
  "os_walk base_dir folder = (case map_of base_dir folder of None \<Rightarrow> [] | Some files \<Rightarrow> files)"

definition collect :: "directory \<Rightarrow> data_dict" where
  "collect base_dir =
     fold (\<lambda>folder data_dict. fold (visit_file folder) (os_walk base_dir folder) data_dict)
       [''PR'', ''GHI''] []"

definition make_rows :: "data_dict \<Rightarrow> row list" where
  "make_rows data_dict =
     map (\<lambda>(date, values).
            \<lparr>Date = date, GHI = dict_get values ''GHI'', PR = dict_get values ''PR''\<rparr>)
       data_dict"

definition preprocess_data :: "directory \<Rightarrow> row list" where
  "preprocess_data base_dir =
     (let rows = make_rows (collect base_dir)
      in if rows = [] then [] else sort_key Date rows)"

section \<open>Step 2: \<^verbatim>\<open>plot_pr_graph\<close>\<close>

text \<open>
  \<^verbatim>\<open>Series.mean()\<close> skips NaN and is NaN when nothing is left.
\<close>

definition mean :: "real option list \<Rightarrow> real option" where
  "mean xs =
     (let vs = dropna xs
      in if vs = [] then None else Some (sum_list vs / real (length vs)))"

text \<open>
  \<^verbatim>\<open>rolling(window=w).mean()\<close>: the window of row \<open>i\<close> is the rows
  \<open>i - w + 1, ..., i\<close> that exist; \<^verbatim>\<open>min_periods\<close> defaults to \<open>w\<close>, so the result
  is NaN unless the window holds \<open>w\<close> values that are not NaN.
\<close>

definition rolling_window :: "nat \<Rightarrow> 'a list \<Rightarrow> nat \<Rightarrow> 'a list" where
  "rolling_window w xs i = (let s = i + 1 - w in take (i + 1 - s) (drop s xs))"

definition rolling_mean_at :: "nat \<Rightarrow> real option list \<Rightarrow> nat \<Rightarrow> real option" where
  "rolling_mean_at w xs i =
     (let obs = dropna (rolling_window w xs i)
      in if length obs \<ge> w then mean (rolling_window w xs i) else None)"

definition rolling_mean :: "nat \<Rightarrow> real option list \<Rightarrow> real option list" where
  "rolling_mean w xs = map (rolling_mean_at w xs) [0..<length xs]"

definition start :: date where
  "start = ymd2ord 2019 7 1"

definition get_budget :: "date \<Rightarrow> real" where
  "get_budget date =
     (let base = 73.9;
          years = max 0 ((date - start) div 365)
      in base * ((1 - 0.008) ^ nat years))"

definition get_color :: "real option \<Rightarrow> string" where
  "get_color ghi =
     (case ghi of
        None \<Rightarrow> ''gray''
      | Some g \<Rightarrow>
          if g < 2 then ''navy''
          else if g < 4 then ''lightblue''
          else if g < 6 then ''orange''
          else ''brown'')"

text \<open>Python's \<^verbatim>\<open>round(x, 1)\<close>: to the nearest tenth, a tie to the even one.\<close>

definition round_half_even :: "real \<Rightarrow> int" where
  "round_half_even x =
     (let f = \<lfloor>x\<rfloor>; r = x - of_int f
      in if r < 1 / 2 then f
         else if r > 1 / 2 then f + 1
         else if even f then f else f + 1)"

definition round1 :: "real \<Rightarrow> real" where
  "round1 x = of_int (round_half_even (x * 10)) / 10"

definition derive :: "row list \<Rightarrow> point list" where
  "derive df =
     map (\<lambda>(r, ma).
            \<lparr>Date = Date r, GHI = GHI r, PR = PR r,
             PR_MA_30 = ma, Budget_PR = get_budget (Date r), Color = get_color (GHI r)\<rparr>)
       (zip df (rolling_mean 30 (map PR df)))"

definition valid_df :: "point list \<Rightarrow> point list" where
  "valid_df df = filter (\<lambda>r. PR r \<noteq> None) df"

definition above_count :: "point list \<Rightarrow> nat" where
  "above_count df = length (filter (\<lambda>r. the (PR r) > Budget_PR r) (valid_df df))"

definition total_count :: "point list \<Rightarrow> nat" where
  "total_count df = length (valid_df df)"

definition make_annotation :: "nat \<Rightarrow> nat \<Rightarrow> piece list" where
  "make_annotation above_cnt total_cnt =
     (if total_cnt > 0 then
        [Lit ''Points above Target Budget PR = '', Int_piece above_cnt, Lit ''/'',
         Int_piece total_cnt, Lit '' = '', Percent1 (real above_cnt / real total_cnt)]
      else [Lit ''Points above Target Budget PR = N/A''])"

definition y1 :: real where
  "y1 = 73.9"

definition y2 :: real where
  "y2 = round1 (y1 * (1 - 0.008))"

definition y3 :: real where
  "y3 = round1 (y1 * (1 - 0.008) ^ 2)"

definition make_budget_label :: "piece list" where
  "make_budget_label =
     [Lit ''Budget PR: [1Y='', Float_piece y1, Lit ''%, 2Y='', Float_piece y2,
      Lit ''%, 3Y='', Float_piece y3, Lit ''%]'']"

definition today :: "point list \<Rightarrow> date" where
  "today df = Max (set (map Date df))"

definition avg :: "point list \<Rightarrow> int \<Rightarrow> real option" where
  "avg df days = mean (map PR (filter (\<lambda>r. Date r > today df - days) df))"

text \<open>
  \<open>None\<close> is the early return on an empty table, before anything is derived or drawn;
  otherwise the result is what the drawing calls are given.
\<close>

definition plot_pr_graph :: "row list \<Rightarrow> chart option" where
  "plot_pr_graph df0 =
     (if df0 = [] then None
      else
        (let df = derive (sort_key Date df0)
         in Some
              \<lparr>points = df,
               title = (Min (set (map Date df)), Max (set (map Date df))),
               budget_label = make_budget_label,
               annotation = make_annotation (above_count df) (total_count df),
               avg_box = map (avg df) [7, 30, 60, 90, 365],
               pr_lifetime = mean (map PR df)\<rparr>))"

definition main :: "directory \<Rightarrow> chart option" where
  "main base_dir = plot_pr_graph (preprocess_data base_dir)"

section \<open>Facts about concrete values\<close>

lemma start_eq: "start = 737241"
  by (simp add: start_def ymd2ord_def days_before_year_def days_before_month_def
      DAYS_IN_MONTH_def is_leap_def)

lemma y2_eq: "y2 = 73.3"
  by (simp add: y2_def y1_def round1_def round_half_even_def)

lemma y3_eq: "y3 = 72.7"
  by (simp add: y3_def y1_def round1_def round_half_even_def power2_eq_square)

section \<open>The budget curve\<close>

lemma years_floor: "\<lfloor>real_of_int (d - start) / 365\<rfloor> = (d - start) div 365"
  using floor_divide_of_int_eq [of "d - start" 365, where ?'a = real] by simp

lemma get_budget_formula:
  "get_budget d =
   73.9 * (1 - 0.008) ^ nat (max 0 \<lfloor>real_of_int (d - ymd2ord 2019 7 1) / 365\<rfloor>)"
  unfolding start_def [symmetric] years_floor by (simp add: get_budget_def)

lemma get_budget_start: "get_budget (ymd2ord 2019 7 1) = 73.9"
  by (simp add: get_budget_def start_def)

lemma get_budget_before:
  assumes "d < ymd2ord 2019 7 1"
  shows "get_budget d = 73.9"
proof -
  from assms have "d - start < 0" by (simp add: start_def)
  then have "(d - start) div 365 < 0" by simp
  then show ?thesis by (simp add: get_budget_def max_def)
qed

lemma get_budget_antimono:
  assumes "ymd2ord 2019 7 1 \<le> d1" and "d1 \<le> d2"
  shows "get_budget d2 \<le> get_budget d1"
proof -
  have "(d1 - start) div 365 \<le> (d2 - start) div 365"
    using assms by (simp add: zdiv_mono1)
  then have "nat (max 0 ((d1 - start) div 365)) \<le> nat (max 0 ((d2 - start) div 365))"
    by simp
  then have "(1 - 0.008 :: real) ^ nat (max 0 ((d2 - start) div 365))
             \<le> (1 - 0.008) ^ nat (max 0 ((d1 - start) div 365))"
    by (intro power_decreasing) simp_all
  then show ?thesis by (simp add: get_budget_def)
qed

lemma get_budget_next_year: "get_budget (ymd2ord 2020 7 2) = 73.9 * 0.992"
  by (simp add: get_budget_def start_eq ymd2ord_def days_before_year_def days_before_month_def
      DAYS_IN_MONTH_def is_leap_def)

section \<open>The derived table\<close>

lemma length_rolling_mean: "length (rolling_mean w xs) = length xs"
  by (simp add: rolling_mean_def)

lemma length_derive: "length (derive df) = length df"
  by (simp add: derive_def length_rolling_mean)

lemma derive_nth:
  "i < length df \<Longrightarrow>
   derive df ! i =
     \<lparr>Date = Date (df ! i), GHI = GHI (df ! i), PR = PR (df ! i),
      PR_MA_30 = rolling_mean_at 30 (map PR df) i,
      Budget_PR = get_budget (Date (df ! i)), Color = get_color (GHI (df ! i))\<rparr>"
  by (simp add: derive_def length_rolling_mean rolling_mean_def)

lemma truncate_derive: "map row.truncate (derive df) = df"
  by (simp add: list_eq_iff_nth_eq length_derive derive_nth row.truncate_def)

lemma map_Date_derive: "map Date (derive df) = map Date df"
  by (simp add: list_eq_iff_nth_eq length_derive derive_nth)

lemma map_PR_derive: "map PR (derive df) = map PR df"
  by (simp add: list_eq_iff_nth_eq length_derive derive_nth)

lemma Budget_PR_derive: "p \<in> set (derive df) \<Longrightarrow> Budget_PR p = get_budget (Date p)"
  by (auto simp: in_set_conv_nth length_derive derive_nth)

lemma plot_pr_graph_empty: "plot_pr_graph [] = None"
  by (simp add: plot_pr_graph_def)

section \<open>Colour classes\<close>

subsection \<open>C6: the class of a GHI value\<close>

text \<open>
  C6. \<^verbatim>\<open>get_color\<close> is a total function of \<open>ghi\<close> with exactly five results. The
  code names the classes by their colours: \<open>gray\<close> is NoData, \<open>navy\<close> is Low,
  \<open>lightblue\<close> is MidLow, \<open>orange\<close> is MidHigh and \<open>brown\<close> is High. An undefined
  \<open>ghi\<close> gives NoData, \<open>ghi < 2\<close> Low, \<open>2 \<le> ghi < 4\<close> MidLow, \<open>4 \<le> ghi < 6\<close>
  MidHigh and \<open>ghi \<ge> 6\<close> High; the boundaries 2, 4 and 6 belong to the upper class. The
  five results are pairwise different, so every input has exactly one class.
\<close>

theorem get_color_total:
  "get_color None = ''gray''
   \<and> (g < 2 \<longrightarrow> get_color (Some g) = ''navy'')
   \<and> (2 \<le> g \<and> g < 4 \<longrightarrow> get_color (Some g) = ''lightblue'')
   \<and> (4 \<le> g \<and> g < 6 \<longrightarrow> get_color (Some g) = ''orange'')
   \<and> (6 \<le> g \<longrightarrow> get_color (Some g) = ''brown'')
   \<and> get_color (Some 2) = ''lightblue''
   \<and> get_color (Some 4) = ''orange''
   \<and> get_color (Some 6) = ''brown''
   \<and> get_color ghi \<in> {''gray'', ''navy'', ''lightblue'', ''orange'', ''brown''}
   \<and> distinct [''gray'', ''navy'', ''lightblue'', ''orange'', ''brown'']"
  by (simp add: get_color_def split: option.split)

theorem get_color_total_witness:
  "(1::real) < 2 \<and> get_color (Some 1) = ''navy''
   \<and> (2::real) \<le> 3 \<and> (3::real) < 4 \<and> get_color (Some 3) = ''lightblue''
   \<and> (4::real) \<le> 5 \<and> (5::real) < 6 \<and> get_color (Some 5) = ''orange''
   \<and> (6::real) \<le> 7 \<and> get_color (Some 7) = ''brown''"
  using get_color_total [of 1] get_color_total [of 3] get_color_total [of 5]
    get_color_total [of 7]
  by simp

subsection \<open>C1: the budget of every record\<close>

text \<open>
  C1. For every record, whatever its PR and GHI, the budget column holds
  \<open>73.9 \<times> (1 - 0.008)^years\<close> with
  \<open>years = max 0 (floor ((date - 2019-07-01) / 365 days))\<close>: \<^verbatim>\<open>plot_pr_graph\<close>
  on a table that is not empty returns a chart whose points are the rows of the table,
  sorted by date, each with this budget. The budget of 2019-07-01 and of every earlier date
  is 73.9, the budget does not increase from 2019-07-01 on, and the budget of 2020-07-02 is
  \<open>73.9 \<times> 0.992\<close>.
\<close>

theorem budget_curve:
  "(df0 \<noteq> [] \<longrightarrow>
      (\<exists>c. plot_pr_graph df0 = Some c
         \<and> map row.truncate (points c) = sort_key Date df0
         \<and> (\<forall>p\<in>set (points c).
               Budget_PR p =
               73.9 * (1 - 0.008) ^
                 nat (max 0 \<lfloor>real_of_int (Date p - ymd2ord 2019 7 1) / 365\<rfloor>))))
   \<and> get_budget d =
       73.9 * (1 - 0.008) ^ nat (max 0 \<lfloor>real_of_int (d - ymd2ord 2019 7 1) / 365\<rfloor>)
   \<and> get_budget (ymd2ord 2019 7 1) = 73.9
   \<and> (d < ymd2ord 2019 7 1 \<longrightarrow> get_budget d = 73.9)
   \<and> (ymd2ord 2019 7 1 \<le> d1 \<and> d1 \<le> d2 \<longrightarrow> get_budget d2 \<le> get_budget d1)
   \<and> get_budget (ymd2ord 2020 7 2) = 73.9 * 0.992"
proof -
  have "\<exists>c. plot_pr_graph df0 = Some c
         \<and> map row.truncate (points c) = sort_key Date df0
         \<and> (\<forall>p\<in>set (points c).
               Budget_PR p =
               73.9 * (1 - 0.008) ^
                 nat (max 0 \<lfloor>real_of_int (Date p - ymd2ord 2019 7 1) / 365\<rfloor>))"
    if "df0 \<noteq> []"
  proof -
    from that obtain c where c: "plot_pr_graph df0 = Some c"
      and pts: "points c = derive (sort_key Date df0)"
      by (simp add: plot_pr_graph_def Let_def)
    have "map row.truncate (points c) = sort_key Date df0"
      by (simp only: pts truncate_derive)
    moreover have "Budget_PR p =
        73.9 * (1 - 0.008) ^ nat (max 0 \<lfloor>real_of_int (Date p - ymd2ord 2019 7 1) / 365\<rfloor>)"
      if "p \<in> set (points c)" for p
      using Budget_PR_derive [of p "sort_key Date df0"] that get_budget_formula [of "Date p"]
      unfolding pts by (simp only:)
    ultimately show ?thesis using c by blast
  qed
  then show ?thesis
    using get_budget_formula [of d] get_budget_start get_budget_before [of d]
      get_budget_antimono [of d1 d2] get_budget_next_year
    by blast
qed

theorem budget_curve_witness:
  "[\<lparr>Date = 737608, GHI = None, PR = None\<rparr>] \<noteq> []
   \<and> (\<exists>c. plot_pr_graph [\<lparr>Date = 737608, GHI = None, PR = None\<rparr>] = Some c
         \<and> points c \<noteq> []
         \<and> (\<forall>p\<in>set (points c). Budget_PR p = 73.9 * 0.992))
   \<and> (737240::int) < ymd2ord 2019 7 1 \<and> get_budget 737240 = 73.9
   \<and> ymd2ord 2019 7 1 \<le> 737241 \<and> (737241::int) \<le> 737608
   \<and> get_budget 737608 \<le> get_budget 737241"
proof -
  let ?r = "\<lparr>Date = 737608, GHI = None, PR = None\<rparr>"
  note T = budget_curve [of "[?r]" 737240 737241 737608]
  have s: "ymd2ord 2019 7 1 = 737241"
    using start_eq by (simp only: start_def)
  from T obtain c where c: "plot_pr_graph [?r] = Some c"
    and tr: "map row.truncate (points c) = sort_key Date [?r]"
    and b: "\<forall>p\<in>set (points c). Budget_PR p =
               73.9 * (1 - 0.008) ^
                 nat (max 0 \<lfloor>real_of_int (Date p - ymd2ord 2019 7 1) / 365\<rfloor>)"
    by blast
  from tr have ne: "points c \<noteq> []" by auto
  have d: "Date p = 737608" if "p \<in> set (points c)" for p
  proof -
    from that have "row.truncate p \<in> set (map row.truncate (points c))" by simp
    then show ?thesis unfolding tr by (simp add: row.truncate_def)
  qed
  have "Budget_PR p = 73.9 * 0.992" if "p \<in> set (points c)" for p
  proof -
    from b that have "Budget_PR p =
        73.9 * (1 - 0.008) ^ nat (max 0 \<lfloor>real_of_int (Date p - ymd2ord 2019 7 1) / 365\<rfloor>)"
      by blast
    then show ?thesis unfolding d [OF that] s by simp
  qed
  with c ne have 1: "\<exists>c. plot_pr_graph [?r] = Some c \<and> points c \<noteq> []
         \<and> (\<forall>p\<in>set (points c). Budget_PR p = 73.9 * 0.992)"
    by blast
  have 2: "(737240::int) < ymd2ord 2019 7 1" "ymd2ord 2019 7 1 \<le> 737241"
    unfolding s by simp_all
  have 3: "(737241::int) \<le> 737608" by simp
  from T 2 3 have 4: "get_budget 737240 = 73.9" "get_budget 737608 \<le> get_budget 737241"
    by blast+
  from 1 2 3 4 show ?thesis by blast
qed

subsection \<open>C10: the budget values of the label\<close>

lemma get_budget_years:
  assumes "k * 365 \<le> d - start" and "d - start < (k + 1) * 365" and "0 \<le> k"
  shows "get_budget d = 73.9 * (1 - 0.008) ^ nat k"
proof -
  have "(d - start) div 365 = k"
  proof (rule int_div_pos_eq)
    show "d - start = 365 * k + (d - start - k * 365)" by simp
    show "0 \<le> d - start - k * 365" using assms(1) by simp
    show "d - start - k * 365 < 365" using assms(2) by (simp add: algebra_simps)
  qed
  with assms(3) show ?thesis by (simp add: get_budget_def)
qed

lemma y1_budget:
  assumes "0 \<le> d - start" and "d - start < 365"
  shows "y1 = get_budget d"
  using get_budget_years [of 0 d] assms by (simp add: y1_def)

lemma y2_budget:
  assumes "365 \<le> d - start" and "d - start < 730"
  shows "y2 = round1 (get_budget d)"
proof -
  have "get_budget d = y1 * (1 - 0.008)"
    using get_budget_years [of 1 d] assms by (simp add: y1_def)
  then show ?thesis by (simp only: y2_def)
qed

lemma y3_budget:
  assumes "730 \<le> d - start" and "d - start < 1095"
  shows "y3 = round1 (get_budget d)"
proof -
  have "get_budget d = y1 * (1 - 0.008) ^ 2"
    using get_budget_years [of 2 d] assms by (simp add: y1_def)
  then show ?thesis by (simp only: y3_def)
qed

lemma budget_label_chart:
  "df0 \<noteq> [] \<Longrightarrow> map_option budget_label (plot_pr_graph df0) = Some make_budget_label"
  by (simp add: plot_pr_graph_def Let_def)

lemma y2_close:
  assumes "365 \<le> d - start" and "d - start < 730"
  shows "\<bar>y2 - get_budget d\<bar> < 0.05"
proof -
  have "get_budget d = 73.9 * (1 - 0.008) ^ nat 1"
    using assms by (intro get_budget_years) simp_all
  then have g: "get_budget d = 73.3088" by simp
  show ?thesis unfolding g y2_eq by simp
qed

lemma y3_close:
  assumes "730 \<le> d - start" and "d - start < 1095"
  shows "\<bar>y3 - get_budget d\<bar> < 0.05"
proof -
  have "get_budget d = 73.9 * (1 - 0.008) ^ nat 2"
    using assms by (intro get_budget_years) simp_all
  then have g: "get_budget d = 72.7223296" by (simp add: power2_eq_square)
  show ?thesis unfolding g y3_eq by simp
qed

lemma milestone_formula:
  "y1 = 73.9 * (1 - 0.008) ^ 0"
  "y2 = round1 (73.9 * (1 - 0.008) ^ 1)"
  "y3 = round1 (73.9 * (1 - 0.008) ^ 2)"
  by (simp_all add: y1_def y2_def y3_def)

text \<open>
  C10. The three values of the label, shown as \<open>1Y\<close>, \<open>2Y\<close> and \<open>3Y\<close>, are the budgets of
  the first, second and third year after 2019-07-01 (\<open>years = 0\<close>, \<open>1\<close> and \<open>2\<close>) from
  the decay formula \<open>73.9 \<times> (1 - 0.008)^years\<close> of the budget curve: the first is the
  value of \<^verbatim>\<open>get_budget\<close> for every date of the first year, and the second and third
  are the values of \<^verbatim>\<open>get_budget\<close> for every date of the second and of the third year,
  written with the one decimal of the label (73.3 and 72.7, less than 0.05 away from the
  budget).
\<close>

theorem budget_label_milestones:
  "(df0 \<noteq> [] \<longrightarrow>
      map_option budget_label (plot_pr_graph df0) =
        Some [Lit ''Budget PR: [1Y='', Float_piece y1, Lit ''%, 2Y='', Float_piece y2,
              Lit ''%, 3Y='', Float_piece y3, Lit ''%]''])
   \<and> (0 \<le> d - start \<and> d - start < 365 \<longrightarrow> y1 = get_budget d)
   \<and> (365 \<le> d - start \<and> d - start < 730 \<longrightarrow> y2 = round1 (get_budget d))
   \<and> (730 \<le> d - start \<and> d - start < 1095 \<longrightarrow> y3 = round1 (get_budget d))
   \<and> y1 = 73.9 \<and> y2 = 73.3 \<and> y3 = 72.7
   \<and> (365 \<le> d - start \<and> d - start < 730 \<longrightarrow> \<bar>y2 - get_budget d\<bar> < 0.05)
   \<and> (730 \<le> d - start \<and> d - start < 1095 \<longrightarrow> \<bar>y3 - get_budget d\<bar> < 0.05)
   \<and> y1 = 73.9 * (1 - 0.008) ^ 0
   \<and> y2 = round1 (73.9 * (1 - 0.008) ^ 1)
   \<and> y3 = round1 (73.9 * (1 - 0.008) ^ 2)"
proof -
  have 1: "df0 \<noteq> [] \<longrightarrow>
      map_option budget_label (plot_pr_graph df0) =
        Some [Lit ''Budget PR: [1Y='', Float_piece y1, Lit ''%, 2Y='', Float_piece y2,
              Lit ''%, 3Y='', Float_piece y3, Lit ''%]'']"
    using budget_label_chart [of df0] by (simp add: make_budget_label_def)
  have 2: "y1 = 73.9" by (simp add: y1_def)
  from 1 2 y1_budget [of d] y2_budget [of d] y3_budget [of d] y2_eq y3_eq
    y2_close [of d] y3_close [of d] milestone_formula
  show ?thesis by blast
qed

theorem budget_label_milestones_witness:
  "[\<lparr>Date = 737241, GHI = None, PR = None\<rparr>] \<noteq> []
   \<and> map_option budget_label (plot_pr_graph [\<lparr>Date = 737241, GHI = None, PR = None\<rparr>]) =
        Some [Lit ''Budget PR: [1Y='', Float_piece y1, Lit ''%, 2Y='', Float_piece y2,
              Lit ''%, 3Y='', Float_piece y3, Lit ''%]'']
   \<and> (0::int) \<le> 737241 - 737241 \<and> y1 = get_budget 737241
   \<and> (365::int) \<le> 737606 - 737241 \<and> y2 = round1 (get_budget 737606)
   \<and> \<bar>y2 - get_budget 737606\<bar> < 0.05
   \<and> (730::int) \<le> 737971 - 737241 \<and> y3 = round1 (get_budget 737971)
   \<and> \<bar>y3 - get_budget 737971\<bar> < 0.05"
proof -
  have h: "(0::int) \<le> 737241 - start" "737241 - start < 365"
    "365 \<le> 737606 - start" "737606 - start < 730"
    "730 \<le> 737971 - start" "737971 - start < 1095"
    by (simp_all add: start_eq)
  have n: "[\<lparr>Date = 737241, GHI = None, PR = None\<rparr>] \<noteq> []" by simp
  from budget_label_milestones [of "[\<lparr>Date = 737241, GHI = None, PR = None\<rparr>]" 737241] n h
  have a: "map_option budget_label (plot_pr_graph [\<lparr>Date = 737241, GHI = None, PR = None\<rparr>]) =
        Some [Lit ''Budget PR: [1Y='', Float_piece y1, Lit ''%, 2Y='', Float_piece y2,
              Lit ''%, 3Y='', Float_piece y3, Lit ''%]'']"
    and b: "y1 = get_budget 737241" by blast+
  from budget_label_milestones [of "[]" 737606] h
  have c: "y2 = round1 (get_budget 737606)" "\<bar>y2 - get_budget 737606\<bar> < 0.05" by blast+
  from budget_label_milestones [of "[]" 737971] h
  have e: "y3 = round1 (get_budget 737971)" "\<bar>y3 - get_budget 737971\<bar> < 0.05" by blast+
  from n a b c e show ?thesis by simp
qed

section \<open>Means\<close>

lemma dropna_filter: "dropna xs = map the (filter (\<lambda>x. x \<noteq> None) xs)"
  by (induction xs rule: dropna.induct) simp_all

lemma length_dropna_le: "length (dropna xs) \<le> length xs"
  by (induction xs rule: dropna.induct) simp_all

lemma dropna_map_Some: "dropna (map Some vs) = vs"
  by (induction vs) simp_all

lemma mean_single: "mean [x] = x"
  by (cases x) (simp_all add: mean_def)

lemma today_single: "today [p] = Date p"
  by (simp add: today_def)

lemma avg_single:
  assumes "0 < days"
  shows "avg [p] days = PR p"
  using assms by (simp add: avg_def today_single mean_single)

lemma derive_single:
  "derive [r] =
     [\<lparr>Date = Date r, GHI = GHI r, PR = PR r, PR_MA_30 = rolling_mean_at 30 [PR r] 0,
       Budget_PR = get_budget (Date r), Color = get_color (GHI r)\<rparr>]"
  by (simp add: list_eq_iff_nth_eq length_derive derive_nth)

lemma avg_box_single:
  "map_option avg_box (plot_pr_graph [r]) = Some [PR r, PR r, PR r, PR r, PR r]"
  by (simp add: plot_pr_graph_def Let_def derive_single avg_single)

subsection \<open>C4: a series of one record\<close>

text \<open>
  C4 as stated fails: for a series whose only record is dated 2019-07-01 and has PR 80, the
  anchor is 2019-07-01, the record satisfies \<open>date > anchor - 7 days\<close>, and the 7-day
  average (the first of the five averages) is 80, not undefined.
\<close>

theorem avg_single_record_counterexample:
  "map_option avg_box (plot_pr_graph [\<lparr>Date = 737241, GHI = None, PR = Some 80\<rparr>])
   = Some [Some 80, Some 80, Some 80, Some 80, Some 80]"
  by (simp add: avg_box_single)

text \<open>
  C4, amended. For a series of exactly one record, the anchor is the date of that record,
  the record lies in every trailing window, and the 7-day average (as the 30-, 60-, 90- and
  365-day ones) is the PR of that record: it is undefined exactly when that PR is undefined.
\<close>

theorem avg_single_record:
  "map_option avg_box (plot_pr_graph [r]) = Some [PR r, PR r, PR r, PR r, PR r]
   \<and> today (derive [r]) = Date r
   \<and> avg (derive [r]) 7 = PR r
   \<and> (avg (derive [r]) 7 = None \<longleftrightarrow> PR r = None)"
  by (simp add: avg_box_single derive_single avg_single today_single)

section \<open>Points above the budget\<close>

lemma total_count_filter: "total_count df = length [p \<leftarrow> df. PR p \<noteq> None]"
  by (simp add: total_count_def valid_df_def)

lemma above_count_filter:
  "above_count df = length [p \<leftarrow> df. \<exists>v. PR p = Some v \<and> v > Budget_PR p]"
proof -
  have "(PR p \<noteq> None \<and> the (PR p) > Budget_PR p) = (\<exists>v. PR p = Some v \<and> v > Budget_PR p)"
    for p :: point
    by (cases "PR p") simp_all
  then show ?thesis
    by (simp add: above_count_def valid_df_def conj_commute)
qed

lemma above_count_le: "above_count df \<le> total_count df"
  by (simp add: above_count_def total_count_def)

lemma annotation_chart:
  "df0 \<noteq> [] \<Longrightarrow>
   \<exists>c. plot_pr_graph df0 = Some c
     \<and> annotation c = make_annotation (above_count (points c)) (total_count (points c))"
  by (simp add: plot_pr_graph_def Let_def)

lemma make_annotation_cases:
  "make_annotation a t =
     (if t = 0 then [Lit ''Points above Target Budget PR = N/A'']
      else [Lit ''Points above Target Budget PR = '', Int_piece a, Lit ''/'', Int_piece t,
            Lit '' = '', Percent1 (real a / real t)])"
  by (simp add: make_annotation_def)

lemma example_points:
  "derive [\<lparr>Date = 737241, GHI = g1, PR = Some 80\<rparr>, \<lparr>Date = 737242, GHI = g2, PR = Some 70\<rparr>,
           \<lparr>Date = 737243, GHI = g3, PR = Some 73.9\<rparr>, \<lparr>Date = 737244, GHI = g4, PR = Some 60\<rparr>]
   = [\<lparr>Date = 737241, GHI = g1, PR = Some 80, PR_MA_30 = None, Budget_PR = 73.9,
        Color = get_color g1\<rparr>,
      \<lparr>Date = 737242, GHI = g2, PR = Some 70, PR_MA_30 = None, Budget_PR = 73.9,
        Color = get_color g2\<rparr>,
      \<lparr>Date = 737243, GHI = g3, PR = Some 73.9, PR_MA_30 = None, Budget_PR = 73.9,
        Color = get_color g3\<rparr>,
      \<lparr>Date = 737244, GHI = g4, PR = Some 60, PR_MA_30 = None, Budget_PR = 73.9,
        Color = get_color g4\<rparr>]"
  by (simp add: derive_def rolling_mean_def rolling_mean_at_def rolling_window_def
      get_budget_def start_eq upt_rec [of 0] upt_rec [of 1] upt_rec [of 2] upt_rec [of 3]
      upt_rec [of 4])

lemma example_sorted:
  "sort_key Date
     [\<lparr>Date = 737241, GHI = g1, PR = Some 80\<rparr>, \<lparr>Date = 737242, GHI = g2, PR = Some 70\<rparr>,
      \<lparr>Date = 737243, GHI = g3, PR = Some 73.9\<rparr>, \<lparr>Date = 737244, GHI = g4, PR = Some 60\<rparr>]
   = [\<lparr>Date = 737241, GHI = g1, PR = Some 80\<rparr>, \<lparr>Date = 737242, GHI = g2, PR = Some 70\<rparr>,
      \<lparr>Date = 737243, GHI = g3, PR = Some 73.9\<rparr>, \<lparr>Date = 737244, GHI = g4, PR = Some 60\<rparr>]"
  by simp

lemma plot_pr_graph_annotation:
  "df0 \<noteq> [] \<Longrightarrow>
   map_option annotation (plot_pr_graph df0) =
     Some (make_annotation (above_count (derive (sort_key Date df0)))
             (total_count (derive (sort_key Date df0))))"
  by (simp add: plot_pr_graph_def Let_def)

lemma example_counts:
  "above_count
     (derive
        [\<lparr>Date = 737241, GHI = g1, PR = Some 80\<rparr>, \<lparr>Date = 737242, GHI = g2, PR = Some 70\<rparr>,
         \<lparr>Date = 737243, GHI = g3, PR = Some 73.9\<rparr>, \<lparr>Date = 737244, GHI = g4, PR = Some 60\<rparr>])
   = 1"
  "total_count
     (derive
        [\<lparr>Date = 737241, GHI = g1, PR = Some 80\<rparr>, \<lparr>Date = 737242, GHI = g2, PR = Some 70\<rparr>,
         \<lparr>Date = 737243, GHI = g3, PR = Some 73.9\<rparr>, \<lparr>Date = 737244, GHI = g4, PR = Some 60\<rparr>])
   = 4"
  unfolding example_points
  by (simp_all add: above_count_def total_count_def valid_df_def del: not_None_eq)

lemma example_annotation:
  "map_option annotation
     (plot_pr_graph
        [\<lparr>Date = 737241, GHI = g1, PR = Some 80\<rparr>, \<lparr>Date = 737242, GHI = g2, PR = Some 70\<rparr>,
         \<lparr>Date = 737243, GHI = g3, PR = Some 73.9\<rparr>, \<lparr>Date = 737244, GHI = g4, PR = Some 60\<rparr>])
   = Some [Lit ''Points above Target Budget PR = '', Int_piece 1, Lit ''/'', Int_piece 4,
           Lit '' = '', Percent1 0.25]"
proof -
  have "make_annotation 1 4 =
      [Lit ''Points above Target Budget PR = '', Int_piece 1, Lit ''/'', Int_piece 4,
       Lit '' = '', Percent1 0.25]"
    by (simp add: make_annotation_def)
  then show ?thesis
    by (subst plot_pr_graph_annotation) (simp_all only: example_sorted example_counts, simp)
qed

subsection \<open>C5: the share of points above the budget\<close>

text \<open>
  C5. The count of points above the budget runs over the records with a defined PR only and
  counts those whose PR is strictly greater than their budget; the annotation shows the
  ratio \<open>count / valid_count\<close>, and when no record has a defined PR it is the text
  ``Points above Target Budget PR = N/A'' and nothing is divided. For four records with
  PR 80, 70, 73.9 and 60 in the first year (budget 73.9 for all), the count is 1 of 4 and
  the ratio is 0.25.
\<close>

theorem above_budget_ratio:
  "above_count df = length [p \<leftarrow> df. \<exists>v. PR p = Some v \<and> v > Budget_PR p]
   \<and> total_count df = length [p \<leftarrow> df. PR p \<noteq> None]
   \<and> (df0 \<noteq> [] \<longrightarrow>
        (\<exists>c. plot_pr_graph df0 = Some c
           \<and> annotation c =
               (if total_count (points c) = 0 then [Lit ''Points above Target Budget PR = N/A'']
                else [Lit ''Points above Target Budget PR = '',
                      Int_piece (above_count (points c)), Lit ''/'',
                      Int_piece (total_count (points c)), Lit '' = '',
                      Percent1 (real (above_count (points c)) / real (total_count (points c)))])))
   \<and> map Budget_PR
         (derive
            [\<lparr>Date = 737241, GHI = g1, PR = Some 80\<rparr>, \<lparr>Date = 737242, GHI = g2, PR = Some 70\<rparr>,
             \<lparr>Date = 737243, GHI = g3, PR = Some 73.9\<rparr>,
             \<lparr>Date = 737244, GHI = g4, PR = Some 60\<rparr>])
       = [73.9, 73.9, 73.9, 73.9]
   \<and> map_option annotation
         (plot_pr_graph
            [\<lparr>Date = 737241, GHI = g1, PR = Some 80\<rparr>, \<lparr>Date = 737242, GHI = g2, PR = Some 70\<rparr>,
             \<lparr>Date = 737243, GHI = g3, PR = Some 73.9\<rparr>,
             \<lparr>Date = 737244, GHI = g4, PR = Some 60\<rparr>])
       = Some [Lit ''Points above Target Budget PR = '', Int_piece 1, Lit ''/'', Int_piece 4,
               Lit '' = '', Percent1 0.25]"
proof -
  have "\<exists>c. plot_pr_graph df0 = Some c
           \<and> annotation c =
               (if total_count (points c) = 0 then [Lit ''Points above Target Budget PR = N/A'']
                else [Lit ''Points above Target Budget PR = '',
                      Int_piece (above_count (points c)), Lit ''/'',
                      Int_piece (total_count (points c)), Lit '' = '',
                      Percent1 (real (above_count (points c)) / real (total_count (points c)))])"
    if "df0 \<noteq> []"
    using annotation_chart [OF that] unfolding make_annotation_cases by blast
  moreover have "map Budget_PR
         (derive
            [\<lparr>Date = 737241, GHI = g1, PR = Some 80\<rparr>, \<lparr>Date = 737242, GHI = g2, PR = Some 70\<rparr>,
             \<lparr>Date = 737243, GHI = g3, PR = Some 73.9\<rparr>,
             \<lparr>Date = 737244, GHI = g4, PR = Some 60\<rparr>])
       = [73.9, 73.9, 73.9, 73.9]"
    unfolding example_points by simp
  ultimately show ?thesis
    using above_count_filter [of df] total_count_filter [of df]
      example_annotation [of g1 g2 g3 g4]
    by blast
qed

theorem above_budget_ratio_witness:
  "[\<lparr>Date = 737241, GHI = None, PR = None\<rparr>] \<noteq> []
   \<and> (\<exists>c. plot_pr_graph [\<lparr>Date = 737241, GHI = None, PR = None\<rparr>] = Some c
          \<and> total_count (points c) = 0
          \<and> annotation c = [Lit ''Points above Target Budget PR = N/A''])"
proof -
  let ?df = "[\<lparr>Date = 737241, GHI = None, PR = None\<rparr>]"
  have ne: "?df \<noteq> []" by simp
  from above_budget_ratio [of "[]" ?df] ne obtain c where c: "plot_pr_graph ?df = Some c"
    and a: "annotation c =
               (if total_count (points c) = 0 then [Lit ''Points above Target Budget PR = N/A'']
                else [Lit ''Points above Target Budget PR = '',
                      Int_piece (above_count (points c)), Lit ''/'',
                      Int_piece (total_count (points c)), Lit '' = '',
                      Percent1 (real (above_count (points c)) / real (total_count (points c)))])"
    by blast
  from c have "points c = derive ?df"
    by (auto simp: plot_pr_graph_def Let_def)
  then have t: "total_count (points c) = 0"
    by (simp add: derive_single total_count_def valid_df_def)
  with a have "annotation c = [Lit ''Points above Target Budget PR = N/A'']" by simp
  with c t ne show ?thesis by blast
qed

section \<open>Trailing windows\<close>

lemma mean_list:
  "mean xs =
     (let vs = map the [x \<leftarrow> xs. x \<noteq> None]
      in if vs = [] then None else Some (sum_list vs / real (length vs)))"
  by (simp add: mean_def dropna_filter)

lemma mean_map_PR:
  "mean (map PR ps) =
     (let vs = [the (PR p). p \<leftarrow> ps, PR p \<noteq> None]
      in if vs = [] then None else Some (sum_list vs / real (length vs)))"
proof -
  have "map the [x \<leftarrow> map PR ps. x \<noteq> None] = [the (PR p). p \<leftarrow> ps, PR p \<noteq> None]"
    by (induction ps) simp_all
  then show ?thesis by (simp only: mean_list)
qed

lemma mean_map_PR_set:
  assumes "distinct ps"
  shows "mean (map PR ps) =
     (let S = {p \<in> set ps. PR p \<noteq> None}
      in if S = {} then None else Some ((\<Sum>p\<in>S. the (PR p)) / real (card S)))"
proof -
  let ?qs = "[p \<leftarrow> ps. PR p \<noteq> None]"
  have eq: "[the (PR p). p \<leftarrow> ps, PR p \<noteq> None] = map (\<lambda>p. the (PR p)) ?qs"
    by (induction ps) simp_all
  have d: "distinct ?qs" using assms by simp
  have s: "set ?qs = {p \<in> set ps. PR p \<noteq> None}" by simp
  have "sum_list (map (\<lambda>p. the (PR p)) ?qs) = (\<Sum>p\<in>set ?qs. the (PR p))"
    using d by (rule sum_list_distinct_conv_sum_set)
  moreover have "length ?qs = card (set ?qs)"
    using distinct_card [OF d] by (rule sym)
  moreover have "(?qs = []) = (set ?qs = {})" by (simp only: set_empty)
  ultimately show ?thesis
    unfolding mean_map_PR eq Let_def s by simp
qed

lemma avg_list:
  "avg df days =
     (let vs = [the (PR p). p \<leftarrow> df, Date p > Max (Date ` set df) - days \<and> PR p \<noteq> None]
      in if vs = [] then None else Some (sum_list vs / real (length vs)))"
proof -
  have "[the (PR p). p \<leftarrow> [r \<leftarrow> ps. Date r > t], PR p \<noteq> None]
        = [the (PR p). p \<leftarrow> ps, Date p > t \<and> PR p \<noteq> None]" for t and ps :: "point list"
    by (induction ps) simp_all
  then show ?thesis
    unfolding avg_def mean_map_PR today_def set_map by (simp only:)
qed

lemma avg_set:
  assumes "distinct df"
  shows "avg df days =
     (let S = {p \<in> set df. Date p > Max (Date ` set df) - days \<and> PR p \<noteq> None}
      in if S = {} then None else Some ((\<Sum>p\<in>S. the (PR p)) / real (card S)))"
proof -
  let ?ps = "[r \<leftarrow> df. Date r > today df - days]"
  have "distinct ?ps" using assms by simp
  moreover have "{p \<in> set ?ps. PR p \<noteq> None}
      = {p \<in> set df. Date p > Max (Date ` set df) - days \<and> PR p \<noteq> None}"
    by (auto simp: today_def)
  ultimately show ?thesis
    unfolding avg_def by (simp only: mean_map_PR_set)
qed

lemma distinct_map_sort_key: "distinct (map f (sort_key f xs)) = distinct (map f xs)"
  by (simp add: distinct_map)

lemma distinct_derive:
  assumes "distinct (map Date df)"
  shows "distinct (derive df)"
proof -
  from assms have "distinct (map Date (derive df))" by (simp only: map_Date_derive)
  then show ?thesis by (simp add: distinct_map)
qed

lemma plot_pr_graph_avg_box:
  assumes "df0 \<noteq> []"
  shows "\<exists>c. plot_pr_graph df0 = Some c \<and> points c = derive (sort_key Date df0)
            \<and> avg_box c = map (avg (points c)) [7, 30, 60, 90, 365]"
  using assms by (simp add: plot_pr_graph_def Let_def)

subsection \<open>C3: the averages over the trailing windows\<close>

text \<open>
  C3. For a series that is not empty, the five averages of the summary are, for the windows
  \<open>w\<close> of 7, 30, 60, 90 and 365 days in this order, the mean of the defined PR values of
  exactly the records whose date is strictly greater than the maximum date of the series
  minus \<open>w\<close> days; records with an undefined PR are left out, and when no record of the
  window has a defined PR the average is the undefined value \<open>None\<close>, not an error. The
  mean is stated over the list of the records and, for a series without duplicate dates,
  as the sum over the set of these records divided by their number.
\<close>

theorem trailing_window_average:
  "df0 \<noteq> [] \<longrightarrow>
     (\<exists>c. plot_pr_graph df0 = Some c
        \<and> map row.truncate (points c) = sort_key Date df0
        \<and> avg_box c =
            map (\<lambda>w. let vs = [the (PR p). p \<leftarrow> points c,
                                  Date p > Max (Date ` set (points c)) - w \<and> PR p \<noteq> None]
                      in if vs = [] then None else Some (sum_list vs / real (length vs)))
              [7, 30, 60, 90, 365]
        \<and> (distinct (map Date df0) \<longrightarrow>
             avg_box c =
               map (\<lambda>w. let S = {p \<in> set (points c).
                                    Date p > Max (Date ` set (points c)) - w \<and> PR p \<noteq> None}
                         in if S = {} then None
                            else Some ((\<Sum>p\<in>S. the (PR p)) / real (card S)))
                 [7, 30, 60, 90, 365]))"
proof
  assume "df0 \<noteq> []"
  from plot_pr_graph_avg_box [OF this] obtain c where c: "plot_pr_graph df0 = Some c"
    and pts: "points c = derive (sort_key Date df0)"
    and box: "avg_box c = map (avg (points c)) [7, 30, 60, 90, 365]"
    by blast
  have tr: "map row.truncate (points c) = sort_key Date df0"
    by (simp only: pts truncate_derive)
  have l: "avg_box c =
            map (\<lambda>w. let vs = [the (PR p). p \<leftarrow> points c,
                                  Date p > Max (Date ` set (points c)) - w \<and> PR p \<noteq> None]
                      in if vs = [] then None else Some (sum_list vs / real (length vs)))
              [7, 30, 60, 90, 365]"
    unfolding box by (rule map_cong [OF refl]) (rule avg_list)
  have s: "avg_box c =
               map (\<lambda>w. let S = {p \<in> set (points c).
                                    Date p > Max (Date ` set (points c)) - w \<and> PR p \<noteq> None}
                         in if S = {} then None
                            else Some ((\<Sum>p\<in>S. the (PR p)) / real (card S)))
                 [7, 30, 60, 90, 365]"
    if "distinct (map Date df0)"
  proof -
    from that have "distinct (map Date (sort_key Date df0))"
      by (simp only: distinct_map_sort_key)
    then have "distinct (points c)"
      unfolding pts by (rule distinct_derive)
    then show ?thesis
      unfolding box by (intro map_cong [OF refl] avg_set)
  qed
  from c tr l s show "\<exists>c. plot_pr_graph df0 = Some c
        \<and> map row.truncate (points c) = sort_key Date df0
        \<and> avg_box c =
            map (\<lambda>w. let vs = [the (PR p). p \<leftarrow> points c,
                                  Date p > Max (Date ` set (points c)) - w \<and> PR p \<noteq> None]
                      in if vs = [] then None else Some (sum_list vs / real (length vs)))
              [7, 30, 60, 90, 365]
        \<and> (distinct (map Date df0) \<longrightarrow>
             avg_box c =
               map (\<lambda>w. let S = {p \<in> set (points c).
                                    Date p > Max (Date ` set (points c)) - w \<and> PR p \<noteq> None}
                         in if S = {} then None
                            else Some ((\<Sum>p\<in>S. the (PR p)) / real (card S)))
                 [7, 30, 60, 90, 365])"
    by blast
qed

theorem trailing_window_average_witness:
  "[\<lparr>Date = 737241, GHI = None, PR = Some 60\<rparr>, \<lparr>Date = 737251, GHI = None, PR = Some 80\<rparr>,
    \<lparr>Date = 737252, GHI = None, PR = None\<rparr>] \<noteq> []
   \<and> distinct (map Date
        [\<lparr>Date = 737241, GHI = None, PR = Some 60\<rparr>, \<lparr>Date = 737251, GHI = None, PR = Some 80\<rparr>,
         \<lparr>Date = 737252, GHI = None, PR = None\<rparr>])
   \<and> (\<exists>c. plot_pr_graph
              [\<lparr>Date = 737241, GHI = None, PR = Some 60\<rparr>,
               \<lparr>Date = 737251, GHI = None, PR = Some 80\<rparr>,
               \<lparr>Date = 737252, GHI = None, PR = None\<rparr>] = Some c
        \<and> avg_box c = [Some 80, Some 70, Some 70, Some 70, Some 70]
        \<and> avg_box c =
               map (\<lambda>w. let S = {p \<in> set (points c).
                                    Date p > Max (Date ` set (points c)) - w \<and> PR p \<noteq> None}
                         in if S = {} then None
                            else Some ((\<Sum>p\<in>S. the (PR p)) / real (card S)))
                 [7, 30, 60, 90, 365])"
proof -
  let ?df = "[\<lparr>Date = 737241, GHI = None, PR = Some 60\<rparr>,
              \<lparr>Date = 737251, GHI = None, PR = Some 80\<rparr>,
              \<lparr>Date = 737252, GHI = None, PR = None\<rparr>]"
  have ne: "?df \<noteq> []" by simp
  have d: "distinct (map Date ?df)" by simp
  from trailing_window_average [of ?df] ne d obtain c where c: "plot_pr_graph ?df = Some c"
    and s: "avg_box c =
               map (\<lambda>w. let S = {p \<in> set (points c).
                                    Date p > Max (Date ` set (points c)) - w \<and> PR p \<noteq> None}
                         in if S = {} then None
                            else Some ((\<Sum>p\<in>S. the (PR p)) / real (card S)))
                 [7, 30, 60, 90, 365]"
    by blast
  have srt: "sort_key Date ?df = ?df" by simp
  have ps: "derive ?df =
      [\<lparr>Date = 737241, GHI = None, PR = Some 60, PR_MA_30 = None, Budget_PR = 73.9,
         Color = ''gray''\<rparr>,
       \<lparr>Date = 737251, GHI = None, PR = Some 80, PR_MA_30 = None, Budget_PR = 73.9,
         Color = ''gray''\<rparr>,
       \<lparr>Date = 737252, GHI = None, PR = None, PR_MA_30 = None, Budget_PR = 73.9,
         Color = ''gray''\<rparr>]"
    by (simp add: derive_def rolling_mean_def rolling_mean_at_def rolling_window_def
        get_budget_def get_color_def start_eq upt_rec [of 0] upt_rec [of 1] upt_rec [of 2]
        upt_rec [of 3])
  have "map_option avg_box (plot_pr_graph ?df) = Some (map (avg (derive ?df)) [7, 30, 60, 90, 365])"
    unfolding plot_pr_graph_def Let_def srt by simp
  with c have box: "avg_box c = map (avg (derive ?df)) [7, 30, 60, 90, 365]" by simp
  have "map (avg (derive ?df)) [7, 30, 60, 90, 365]
      = [Some 80, Some 70, Some 70, Some 70, Some 70]"
    unfolding ps by (simp add: avg_def today_def mean_def)
  with box have "avg_box c = [Some 80, Some 70, Some 70, Some 70, Some 70]"
    by simp
  with ne d c s show ?thesis by blast
qed

section \<open>The moving average\<close>

lemma length_dropna_less:
  assumes "None \<in> set xs"
  shows "length (dropna xs) < length xs"
  using assms
proof (induction xs rule: dropna.induct)
  case 1
  then show ?case by simp
next
  case (2 xs)
  have "length (dropna xs) \<le> length xs" by (rule length_dropna_le)
  then show ?case by simp
next
  case (3 x xs)
  then show ?case by simp
qed

lemma dropna_all_defined:
  assumes "None \<notin> set xs"
  shows "dropna xs = map the xs"
  using assms by (induction xs rule: dropna.induct) simp_all

lemma length_rolling_window:
  "length (rolling_window w xs i) \<le> i + 1"
  by (simp add: rolling_window_def Let_def)

lemma rolling_window_nth:
  assumes "0 < w" and "w \<le> i + 1" and "i < length xs"
  shows "rolling_window w xs i = map (\<lambda>j. xs ! j) [Suc i - w..<Suc i]"
  using assms
  by (auto simp: rolling_window_def Let_def list_eq_iff_nth_eq simp del: upt_Suc)

lemma rolling_mean_at_early:
  assumes "i + 1 < w"
  shows "rolling_mean_at w xs i = None"
proof -
  have "length (dropna (rolling_window w xs i)) \<le> i + 1"
    using length_dropna_le [of "rolling_window w xs i"] length_rolling_window [of w xs i]
    by (rule order_trans)
  with assms show ?thesis by (simp add: rolling_mean_at_def Let_def)
qed

lemma rolling_mean_at_gap:
  assumes "0 < w" and "w \<le> i + 1" and "i < length xs"
    and "i + 1 - w \<le> j" and "j \<le> i" and "xs ! j = None"
  shows "rolling_mean_at w xs i = None"
proof -
  let ?win = "rolling_window w xs i"
  have win: "?win = map (\<lambda>j. xs ! j) [Suc i - w..<Suc i]"
    using assms(1-3) by (rule rolling_window_nth)
  have "j \<in> set [Suc i - w..<Suc i]"
    using assms(4,5) by (simp del: upt_Suc)
  then have "xs ! j \<in> set ?win"
    unfolding win by (simp del: upt_Suc)
  then have "None \<in> set ?win" using assms(6) by simp
  then have "length (dropna ?win) < length ?win" by (rule length_dropna_less)
  moreover have "length ?win = w" unfolding win using assms(2) by (simp del: upt_Suc)
  ultimately show ?thesis by (simp add: rolling_mean_at_def Let_def)
qed

lemma rolling_mean_at_full:
  assumes "0 < w" and "w \<le> i + 1" and "i < length xs"
    and "\<forall>j\<in>{i + 1 - w..i}. xs ! j \<noteq> None"
  shows "rolling_mean_at w xs i = Some ((\<Sum>j = i + 1 - w..i. the (xs ! j)) / real w)"
proof -
  let ?win = "rolling_window w xs i"
  have win: "?win = map (\<lambda>j. xs ! j) [Suc i - w..<Suc i]"
    using assms(1-3) by (rule rolling_window_nth)
  have "xs ! j \<noteq> None" if "j \<in> set [Suc i - w..<Suc i]" for j
    using that assms(4) by (simp del: upt_Suc)
  then have "None \<notin> set ?win"
    unfolding win by (metis (no_types, lifting) imageE list.set_map)
  then have d: "dropna ?win = map (\<lambda>j. the (xs ! j)) [Suc i - w..<Suc i]"
    unfolding win by (simp add: dropna_all_defined comp_def del: upt_Suc)
  have len: "length (dropna ?win) = w"
    unfolding d using assms(2) by (simp del: upt_Suc)
  have "sum_list (dropna ?win) = (\<Sum>j = Suc i - w..<Suc i. the (xs ! j))"
    unfolding d by (simp add: interv_sum_list_conv_sum_set_nat del: upt_Suc)
  also have "{Suc i - w..<Suc i} = {i + 1 - w..i}" by auto
  finally have s: "sum_list (dropna ?win) = (\<Sum>j = i + 1 - w..i. the (xs ! j))" .
  from assms(1) len have ne: "dropna ?win \<noteq> []" by auto
  show ?thesis
    using len ne s by (simp add: rolling_mean_at_def mean_def Let_def)
qed

lemma PR_MA_30_derive:
  "i < length df \<Longrightarrow> PR_MA_30 (derive df ! i) = rolling_mean_at 30 (map PR df) i"
  by (simp add: derive_nth)

lemma PR_derive_nth: "i < length df \<Longrightarrow> PR (derive df ! i) = PR (df ! i)"
  by (simp add: derive_nth)

lemma moving_average_derive:
  assumes "i < length df"
  shows "(i < 29 \<longrightarrow> PR_MA_30 (derive df ! i) = None)
     \<and> (29 \<le> i \<and> (\<forall>j\<in>{i - 29..i}. PR (derive df ! j) \<noteq> None) \<longrightarrow>
          PR_MA_30 (derive df ! i) = Some ((\<Sum>j = i - 29..i. the (PR (derive df ! j))) / 30))
     \<and> (29 \<le> i \<and> (\<exists>j\<in>{i - 29..i}. PR (derive df ! j) = None) \<longrightarrow>
          PR_MA_30 (derive df ! i) = None)"
proof -
  let ?xs = "map PR df"
  have ma: "PR_MA_30 (derive df ! i) = rolling_mean_at 30 ?xs i"
    using assms by (rule PR_MA_30_derive)
  have pr: "PR (derive df ! j) = ?xs ! j" if "j \<in> {i - 29..i}" for j
    using that assms by (simp add: PR_derive_nth)
  have len: "i < length ?xs" using assms by simp
  have 1: "rolling_mean_at 30 ?xs i = None" if "i < 29"
    using that by (intro rolling_mean_at_early) simp
  have 2: "rolling_mean_at 30 ?xs i = Some ((\<Sum>j = i - 29..i. the (PR (derive df ! j))) / 30)"
    if "29 \<le> i" and "\<forall>j\<in>{i - 29..i}. PR (derive df ! j) \<noteq> None"
  proof -
    from that(1) have w: "i + 1 - 30 = i - 29" by simp
    have "\<forall>j\<in>{i + 1 - 30..i}. ?xs ! j \<noteq> None"
      unfolding w using that(2) pr by simp
    then have "rolling_mean_at 30 ?xs i = Some ((\<Sum>j = i + 1 - 30..i. the (?xs ! j)) / real 30)"
      using that(1) len by (intro rolling_mean_at_full) simp_all
    also have "(\<Sum>j = i + 1 - 30..i. the (?xs ! j)) = (\<Sum>j = i - 29..i. the (PR (derive df ! j)))"
      unfolding w by (rule sum.cong) (simp_all only: pr)
    finally show ?thesis by simp
  qed
  have 3: "rolling_mean_at 30 ?xs i = None"
    if "29 \<le> i" and "\<exists>j\<in>{i - 29..i}. PR (derive df ! j) = None"
  proof -
    from that(2) obtain j where j: "j \<in> {i - 29..i}" and n: "PR (derive df ! j) = None"
      by blast
    from n pr [OF j] have "?xs ! j = None" by simp
    moreover from j that(1) have "i + 1 - 30 \<le> j" "j \<le> i" by simp_all
    ultimately show ?thesis
      using that(1) len by (intro rolling_mean_at_gap [where j = j]) simp_all
  qed
  from 1 2 3 show ?thesis unfolding ma by blast
qed

lemma plot_pr_graph_points:
  assumes "plot_pr_graph df0 = Some c"
  shows "points c = derive (sort_key Date df0)"
  using assms by (auto simp: plot_pr_graph_def Let_def split: if_splits)

lemma moving_average_constant:
  assumes "map PR df = replicate 35 (Some 50)"
  shows "map PR_MA_30 (derive df) = replicate 29 None @ replicate 6 (Some 50)"
proof -
  from assms have len: "length df = 35"
    by (metis length_map length_replicate)
  have pr: "PR (derive df ! j) = Some 50" if "j < 35" for j
  proof -
    from that len have "PR (derive df ! j) = map PR df ! j" by (simp add: PR_derive_nth)
    with that show ?thesis unfolding assms by simp
  qed
  have "PR_MA_30 (derive df ! i) = (replicate 29 None @ replicate 6 (Some 50)) ! i"
    if "i < 35" for i
  proof (cases "i < 29")
    case True
    with moving_average_derive [of i df] that len show ?thesis
      by (simp add: nth_append)
  next
    case False
    then have i: "29 \<le> i" by simp
    have all: "\<forall>j\<in>{i - 29..i}. PR (derive df ! j) \<noteq> None"
      using pr that by simp
    have "(\<Sum>j = i - 29..i. the (PR (derive df ! j))) = (\<Sum>j = i - 29..i. 50)"
      using pr that by (intro sum.cong) simp_all
    also have "\<dots> = 30 * 50" using i by simp
    finally have "(\<Sum>j = i - 29..i. the (PR (derive df ! j))) / 30 = 50" by simp
    with moving_average_derive [of i df] that len i all
    have "PR_MA_30 (derive df ! i) = Some 50" by simp
    with False that show ?thesis by (simp add: nth_append)
  qed
  then show ?thesis
    by (simp add: list_eq_iff_nth_eq length_derive len)
qed

lemma map_PR_sort_key_constant:
  assumes "map PR df0 = replicate n v"
  shows "map PR (sort_key Date df0) = replicate n v"
proof -
  from assms have len: "length df0 = n"
    by (metis length_map length_replicate)
  have v: "PR r = v" if "r \<in> set df0" for r
  proof -
    from that have "PR r \<in> set (map PR df0)" by simp
    then show ?thesis unfolding assms by simp
  qed
  have "PR (sort_key Date df0 ! i) = v" if "i < n" for i
  proof -
    from that len have "sort_key Date df0 ! i \<in> set (sort_key Date df0)"
      by (intro nth_mem) simp
    then have "sort_key Date df0 ! i \<in> set df0" by simp
    then show ?thesis by (rule v)
  qed
  then show ?thesis
    by (simp add: list_eq_iff_nth_eq len)
qed

subsection \<open>C2: the 30-sample moving average\<close>

text \<open>
  C2. The moving average is computed over the positions of the date-sorted series, not over
  calendar days: at position \<open>i\<close> (from 0) it is undefined for every \<open>i < 29\<close>; for
  \<open>i \<ge> 29\<close> it is the arithmetic mean of the PR values at the positions \<open>i - 29, ..., i\<close>
  when all of them are defined, and undefined when one of them is not (the minimum number
  of observations is the size of the window). For 35 records whose PR values are all 50,
  it is undefined at the positions 0 to 28 and exactly 50 at the positions 29 to 34.
\<close>

theorem moving_average_30:
  "(df0 \<noteq> [] \<longrightarrow>
      (\<exists>c. plot_pr_graph df0 = Some c
         \<and> map row.truncate (points c) = sort_key Date df0
         \<and> (\<forall>i<length (points c).
               (i < 29 \<longrightarrow> PR_MA_30 (points c ! i) = None)
             \<and> (29 \<le> i \<and> (\<forall>j\<in>{i - 29..i}. PR (points c ! j) \<noteq> None) \<longrightarrow>
                  PR_MA_30 (points c ! i) =
                    Some ((\<Sum>j = i - 29..i. the (PR (points c ! j))) / 30))
             \<and> (29 \<le> i \<and> (\<exists>j\<in>{i - 29..i}. PR (points c ! j) = None) \<longrightarrow>
                  PR_MA_30 (points c ! i) = None))))
   \<and> (map PR df0 = replicate 35 (Some 50) \<longrightarrow>
        (\<exists>c. plot_pr_graph df0 = Some c
           \<and> map PR_MA_30 (points c) = replicate 29 None @ replicate 6 (Some 50)))"
proof -
  have pts: "\<exists>c. plot_pr_graph df0 = Some c \<and> points c = derive (sort_key Date df0)"
    if "df0 \<noteq> []"
    using that by (simp add: plot_pr_graph_def Let_def)
  have 1: "\<exists>c. plot_pr_graph df0 = Some c
         \<and> map row.truncate (points c) = sort_key Date df0
         \<and> (\<forall>i<length (points c).
               (i < 29 \<longrightarrow> PR_MA_30 (points c ! i) = None)
             \<and> (29 \<le> i \<and> (\<forall>j\<in>{i - 29..i}. PR (points c ! j) \<noteq> None) \<longrightarrow>
                  PR_MA_30 (points c ! i) =
                    Some ((\<Sum>j = i - 29..i. the (PR (points c ! j))) / 30))
             \<and> (29 \<le> i \<and> (\<exists>j\<in>{i - 29..i}. PR (points c ! j) = None) \<longrightarrow>
                  PR_MA_30 (points c ! i) = None))"
    if "df0 \<noteq> []"
  proof -
    from pts [OF that] obtain c where c: "plot_pr_graph df0 = Some c"
      and p: "points c = derive (sort_key Date df0)" by blast
    have "map row.truncate (points c) = sort_key Date df0"
      by (simp only: p truncate_derive)
    moreover have "\<forall>i<length (points c).
               (i < 29 \<longrightarrow> PR_MA_30 (points c ! i) = None)
             \<and> (29 \<le> i \<and> (\<forall>j\<in>{i - 29..i}. PR (points c ! j) \<noteq> None) \<longrightarrow>
                  PR_MA_30 (points c ! i) =
                    Some ((\<Sum>j = i - 29..i. the (PR (points c ! j))) / 30))
             \<and> (29 \<le> i \<and> (\<exists>j\<in>{i - 29..i}. PR (points c ! j) = None) \<longrightarrow>
                  PR_MA_30 (points c ! i) = None)"
      unfolding p length_derive using moving_average_derive [of _ "sort_key Date df0"]
      by blast
    ultimately show ?thesis using c by blast
  qed
  have 2: "\<exists>c. plot_pr_graph df0 = Some c
           \<and> map PR_MA_30 (points c) = replicate 29 None @ replicate 6 (Some 50)"
    if "map PR df0 = replicate 35 (Some 50)"
  proof -
    from that have "length df0 = 35" by (metis length_map length_replicate)
    then have "df0 \<noteq> []" by auto
    from pts [OF this] obtain c where c: "plot_pr_graph df0 = Some c"
      and p: "points c = derive (sort_key Date df0)" by blast
    from that have "map PR (sort_key Date df0) = replicate 35 (Some 50)"
      by (rule map_PR_sort_key_constant)
    then have "map PR_MA_30 (points c) = replicate 29 None @ replicate 6 (Some 50)"
      unfolding p by (rule moving_average_constant)
    with c show ?thesis by blast
  qed
  from 1 2 show ?thesis by blast
qed

theorem moving_average_30_witness:
  "map PR (map (\<lambda>k. \<lparr>Date = 737241 + int k, GHI = None, PR = Some 50\<rparr>) [0..<35])
     = replicate 35 (Some 50)
   \<and> (\<exists>c. plot_pr_graph
              (map (\<lambda>k. \<lparr>Date = 737241 + int k, GHI = None, PR = Some 50\<rparr>) [0..<35]) = Some c
          \<and> map PR_MA_30 (points c) = replicate 29 None @ replicate 6 (Some 50)
          \<and> 5 < length (points c) \<and> PR_MA_30 (points c ! 5) = None
          \<and> 29 < length (points c) \<and> (\<forall>j\<in>{29 - 29..29}. PR (points c ! j) \<noteq> None)
          \<and> PR_MA_30 (points c ! 29) = Some 50)
   \<and> (\<exists>c. plot_pr_graph
              (map (\<lambda>k. \<lparr>Date = 737241 + int k, GHI = None, PR = None\<rparr>) [0..<30]) = Some c
          \<and> 29 < length (points c) \<and> (\<exists>j\<in>{29 - 29..29}. PR (points c ! j) = None)
          \<and> PR_MA_30 (points c ! 29) = None)"
proof -
  let ?a = "map (\<lambda>k. \<lparr>Date = 737241 + int k, GHI = None, PR = Some 50\<rparr>) [0..<35]"
  let ?b = "map (\<lambda>k. \<lparr>Date = 737241 + int k, GHI = None, PR = None\<rparr>) [0..<30]"
  have pa: "map PR ?a = replicate 35 (Some 50)"
    by (simp add: comp_def map_replicate_const del: upt_Suc)
  have pb: "map PR ?b = replicate 30 None"
    by (simp add: comp_def map_replicate_const del: upt_Suc)
  have na: "?a \<noteq> []" and nb: "?b \<noteq> []" by (simp_all del: upt_Suc)
  have A: "\<exists>c. plot_pr_graph ?a = Some c
          \<and> map PR_MA_30 (points c) = replicate 29 None @ replicate 6 (Some 50)
          \<and> 5 < length (points c) \<and> PR_MA_30 (points c ! 5) = None
          \<and> 29 < length (points c) \<and> (\<forall>j\<in>{29 - 29..29}. PR (points c ! j) \<noteq> None)
          \<and> PR_MA_30 (points c ! 29) = Some 50"
  proof -
    from moving_average_30 [of ?a] pa obtain c where c: "plot_pr_graph ?a = Some c"
      and m: "map PR_MA_30 (points c) = replicate 29 None @ replicate 6 (Some 50)"
      by blast
    from c have p: "points c = derive (sort_key Date ?a)"
      by (rule plot_pr_graph_points)
    have len: "length (points c) = 35"
      unfolding p length_derive by (simp del: upt_Suc)
    have "map PR (points c) = replicate 35 (Some 50)"
      unfolding p map_PR_derive using pa by (rule map_PR_sort_key_constant)
    then have "map PR (points c) ! j = Some 50" if "j < 35" for j
      using that by simp
    then have pr: "PR (points c ! j) = Some 50" if "j < 35" for j
      using that len by simp
    have "map PR_MA_30 (points c) ! 5 = None" "map PR_MA_30 (points c) ! 29 = Some 50"
      unfolding m by (simp_all add: nth_append)
    then have "PR_MA_30 (points c ! 5) = None" "PR_MA_30 (points c ! 29) = Some 50"
      using len by simp_all
    moreover have "\<forall>j\<in>{29 - 29..29}. PR (points c ! j) \<noteq> None"
      using pr by simp
    ultimately show ?thesis using c m len by simp
  qed
  have B: "\<exists>c. plot_pr_graph ?b = Some c
          \<and> 29 < length (points c) \<and> (\<exists>j\<in>{29 - 29..29}. PR (points c ! j) = None)
          \<and> PR_MA_30 (points c ! 29) = None"
  proof -
    from moving_average_30 [of ?b] nb obtain c where c: "plot_pr_graph ?b = Some c"
      and g: "\<forall>i<length (points c).
                 29 \<le> i \<and> (\<exists>j\<in>{i - 29..i}. PR (points c ! j) = None) \<longrightarrow>
                  PR_MA_30 (points c ! i) = None"
      by blast
    from c have p: "points c = derive (sort_key Date ?b)"
      by (rule plot_pr_graph_points)
    have len: "length (points c) = 30"
      unfolding p length_derive by (simp del: upt_Suc)
    have "map PR (points c) = replicate 30 None"
      unfolding p map_PR_derive using pb by (rule map_PR_sort_key_constant)
    then have "map PR (points c) ! 3 = None" by simp
    then have "PR (points c ! 3) = None" using len by simp
    then have e: "\<exists>j\<in>{29 - 29..29}. PR (points c ! j) = None" by auto
    with g len have "PR_MA_30 (points c ! 29) = None" by simp
    with c len e show ?thesis by simp
  qed
  from pa A B show ?thesis by blast
qed

section \<open>The merge of the two folders\<close>

lemma stored_setdefault_set:
  "stored (setdefault_set dd date key v) d k =
     (if d = date \<and> k = key then Some v else stored dd d k)"
  by (cases "map_of dd date")
    (simp_all add: stored_def setdefault_set_def AList.update_conv')

lemma keys_setdefault_set:
  "fst ` set (setdefault_set dd date key v) = insert date (fst ` set dd)"
  by (simp add: setdefault_set_def Let_def AList.dom_update)

lemma distinct_setdefault_set:
  "distinct (map fst dd) \<Longrightarrow> distinct (map fst (setdefault_set dd date key v))"
  by (simp add: setdefault_set_def Let_def AList.distinct_update)

lemma visit_file_known:
  assumes "folder = ''PR'' \<or> folder = ''GHI''"
  shows "visit_file folder f dd =
     (if endswith (fname f) ''.csv'' then
        (case read_value f of
           Inl e \<Rightarrow> dd
         | Inr (date, v) \<Rightarrow> setdefault_set dd date folder v)
      else dd)"
  using assms by (auto simp: visit_file_def split: sum.splits prod.splits)

lemma visit_file_skipped:
  assumes "\<not> endswith (fname f) ''.csv'' \<or> (\<exists>e. read_value f = Inl e)"
  shows "visit_file folder f dd = dd"
  using assms by (auto simp: visit_file_def)

lemma fold_visit_skipped:
  assumes "\<forall>f\<in>set fs. \<not> endswith (fname f) ''.csv'' \<or> (\<exists>e. read_value f = Inl e)"
  shows "fold (visit_file folder) fs dd = dd"
  using assms by (induction fs arbitrary: dd) (simp_all add: visit_file_skipped)

lemma distinct_visit_file:
  "distinct (map fst dd) \<Longrightarrow> distinct (map fst (visit_file folder f dd))"
  by (auto simp: visit_file_def distinct_setdefault_set split: sum.splits prod.splits)

lemma distinct_fold_visit:
  "distinct (map fst dd) \<Longrightarrow> distinct (map fst (fold (visit_file folder) fs dd))"
  by (induction fs arbitrary: dd) (simp_all add: distinct_visit_file)

lemma distinct_collect: "distinct (map fst (collect base_dir))"
  by (simp add: collect_def distinct_fold_visit)

lemma keys_visit_file:
  assumes "folder = ''PR'' \<or> folder = ''GHI''"
  shows "fst ` set (visit_file folder f dd) =
     fst ` set dd \<union> {d. endswith (fname f) ''.csv'' \<and> (\<exists>v. read_value f = Inr (d, v))}"
  unfolding visit_file_known [OF assms]
  by (auto simp: keys_setdefault_set split: sum.splits)

lemma keys_fold_visit:
  assumes "folder = ''PR'' \<or> folder = ''GHI''"
  shows "fst ` set (fold (visit_file folder) fs dd) =
     fst ` set dd \<union>
       {d. \<exists>f\<in>set fs. endswith (fname f) ''.csv'' \<and> (\<exists>v. read_value f = Inr (d, v))}"
proof (induction fs arbitrary: dd)
  case Nil
  then show ?case by simp
next
  case (Cons f fs)
  show ?case
    unfolding fold_simps Cons.IH keys_visit_file [OF assms] by auto
qed

lemma stored_visit_file:
  assumes "folder = ''PR'' \<or> folder = ''GHI''"
    and "stored (visit_file folder f dd) d k = Some v"
  shows "stored dd d k = Some v
     \<or> (k = folder \<and> endswith (fname f) ''.csv'' \<and> read_value f = Inr (d, v))"
  using assms(2) unfolding visit_file_known [OF assms(1)]
  by (auto simp: stored_setdefault_set split: if_splits sum.splits)

lemma stored_fold_visit:
  assumes "folder = ''PR'' \<or> folder = ''GHI''"
    and "stored (fold (visit_file folder) fs dd) d k = Some v"
  shows "stored dd d k = Some v
     \<or> (k = folder \<and> (\<exists>f\<in>set fs. endswith (fname f) ''.csv'' \<and> read_value f = Inr (d, v)))"
  using assms(2)
proof (induction fs arbitrary: dd)
  case Nil
  then show ?case by simp
next
  case (Cons f fs)
  from Cons.prems have "stored (fold (visit_file folder) fs (visit_file folder f dd)) d k = Some v"
    by simp
  from Cons.IH [OF this] stored_visit_file [OF assms(1), of f dd d k v]
  show ?case by auto
qed

lemma stored_Nil: "stored [] d k = None"
  by (simp add: stored_def)

lemma keys_collect:
  "fst ` set (collect base_dir) =
     {d. \<exists>f\<in>set (os_walk base_dir ''PR'') \<union> set (os_walk base_dir ''GHI'').
           endswith (fname f) ''.csv'' \<and> (\<exists>v. read_value f = Inr (d, v))}"
  unfolding collect_def by (auto simp: keys_fold_visit)

lemma stored_collect:
  assumes "stored (collect base_dir) d k = Some v"
  shows "\<exists>f\<in>set (os_walk base_dir k). endswith (fname f) ''.csv'' \<and> read_value f = Inr (d, v)"
proof -
  let ?pr = "fold (visit_file ''PR'') (os_walk base_dir ''PR'') []"
  from assms have "stored (fold (visit_file ''GHI'') (os_walk base_dir ''GHI'') ?pr) d k = Some v"
    by (simp add: collect_def)
  then have "stored ?pr d k = Some v
     \<or> (k = ''GHI'' \<and>
         (\<exists>f\<in>set (os_walk base_dir ''GHI''). endswith (fname f) ''.csv'' \<and> read_value f = Inr (d, v)))"
    by (intro stored_fold_visit) simp_all
  moreover have "k = ''PR'' \<and>
         (\<exists>f\<in>set (os_walk base_dir ''PR''). endswith (fname f) ''.csv'' \<and> read_value f = Inr (d, v))"
    if "stored ?pr d k = Some v"
    using stored_fold_visit [of "''PR''" "os_walk base_dir ''PR''" "[]" d k v] that
    by (simp add: stored_Nil)
  ultimately show ?thesis by blast
qed

lemma map_Date_make_rows: "map Date (make_rows dd) = map fst dd"
  by (simp add: make_rows_def case_prod_unfold)

lemma make_rows_stored:
  assumes "distinct (map fst dd)" and "r \<in> set (make_rows dd)"
  shows "PR r = (case stored dd (Date r) ''PR'' of None \<Rightarrow> None | Some v \<Rightarrow> v)"
    and "GHI r = (case stored dd (Date r) ''GHI'' of None \<Rightarrow> None | Some v \<Rightarrow> v)"
proof -
  from assms(2) obtain d vs where in_dd: "(d, vs) \<in> set dd"
    and r: "r = \<lparr>Date = d, GHI = dict_get vs ''GHI'', PR = dict_get vs ''PR''\<rparr>"
    by (auto simp: make_rows_def)
  from assms(1) in_dd have "map_of dd d = Some vs" by (rule map_of_is_SomeI)
  then have "stored dd d k = map_of vs k" for k by (simp add: stored_def)
  then show "PR r = (case stored dd (Date r) ''PR'' of None \<Rightarrow> None | Some v \<Rightarrow> v)"
    and "GHI r = (case stored dd (Date r) ''GHI'' of None \<Rightarrow> None | Some v \<Rightarrow> v)"
    by (simp_all add: r dict_get_def)
qed

lemma set_preprocess_data: "set (preprocess_data base_dir) = set (make_rows (collect base_dir))"
  by (simp add: preprocess_data_def Let_def)

lemma Date_preprocess_data:
  "Date ` set (preprocess_data base_dir) = fst ` set (collect base_dir)"
proof -
  have "Date ` set (make_rows (collect base_dir)) = set (map Date (make_rows (collect base_dir)))"
    by simp
  also have "\<dots> = fst ` set (collect base_dir)"
    unfolding map_Date_make_rows by simp
  finally show ?thesis by (simp only: set_preprocess_data)
qed

lemma preprocess_data_value:
  assumes "r \<in> set (preprocess_data base_dir)"
  shows "PR r = Some v \<Longrightarrow>
      \<exists>f\<in>set (os_walk base_dir ''PR''). endswith (fname f) ''.csv'' \<and> read_value f = Inr (Date r, Some v)"
    and "GHI r = Some v \<Longrightarrow>
      \<exists>f\<in>set (os_walk base_dir ''GHI''). endswith (fname f) ''.csv'' \<and> read_value f = Inr (Date r, Some v)"
proof -
  from assms have r: "r \<in> set (make_rows (collect base_dir))"
    by (simp only: set_preprocess_data)
  note st = make_rows_stored [OF distinct_collect r]
  show "\<exists>f\<in>set (os_walk base_dir ''PR''). endswith (fname f) ''.csv'' \<and> read_value f = Inr (Date r, Some v)"
    if "PR r = Some v"
  proof -
    from that st(1) have "stored (collect base_dir) (Date r) ''PR'' = Some (Some v)"
      by (simp split: option.splits)
    then show ?thesis by (rule stored_collect)
  qed
  show "\<exists>f\<in>set (os_walk base_dir ''GHI''). endswith (fname f) ''.csv'' \<and> read_value f = Inr (Date r, Some v)"
    if "GHI r = Some v"
  proof -
    from that st(2) have "stored (collect base_dir) (Date r) ''GHI'' = Some (Some v)"
      by (simp split: option.splits)
    then show ?thesis by (rule stored_collect)
  qed
qed

lemma read_value_no_cell:
  assumes "strptime (replace_csv (fname f)) = Inr d" and "read_csv f = Inr tbl"
    and "dropna (concat tbl) = []"
  shows "read_value f = Inr (d, None)"
  using assms by (simp add: read_value_def)

lemma read_value_first_cell:
  assumes "strptime (replace_csv (fname f)) = Inr d" and "read_csv f = Inr tbl"
    and "dropna (concat tbl) = x # xs"
  shows "read_value f = Inr (d, Some x)"
  using assms by (simp add: read_value_def)

lemma sorted_preprocess_data: "sorted_wrt (<) (map Date (preprocess_data base_dir))"
proof -
  let ?rows = "make_rows (collect base_dir)"
  have "distinct (map Date ?rows)"
    unfolding map_Date_make_rows by (rule distinct_collect)
  then have "distinct (map Date (sort_key Date ?rows))"
    by (simp only: distinct_map_sort_key)
  moreover have "sorted (map Date (sort_key Date ?rows))" by (rule sorted_sort_key)
  ultimately have "sorted_wrt (<) (map Date (sort_key Date ?rows))"
    by (simp add: strict_sorted_iff)
  then show ?thesis by (simp add: preprocess_data_def Let_def)
qed

lemma preprocess_data_skipped:
  assumes "\<forall>f\<in>set (os_walk base_dir ''PR'') \<union> set (os_walk base_dir ''GHI'').
             \<not> endswith (fname f) ''.csv'' \<or> (\<exists>e. read_value f = Inl e)"
  shows "preprocess_data base_dir = []"
proof -
  from assms have "collect base_dir = []"
    by (simp add: collect_def fold_visit_skipped)
  then show ?thesis by (simp add: preprocess_data_def make_rows_def)
qed

lemmas parse_defs = strptime_def match_Y_def match_m_def match_d_def digits2_def orelse_def
  ymd2ord_def days_before_year_def days_before_month_def days_in_month_def DAYS_IN_MONTH_def
  is_leap_def Let_def

lemmas merge_defs = preprocess_data_def collect_def os_walk_def visit_file_def
  setdefault_set_def make_rows_def dict_get_def endswith_def

lemma read_value_example_1:
  "read_value \<lparr>fname = ''2020-01-01.csv'', read_csv = Inr [[None]]\<rparr> = Inr (737425, None)"
  by (simp add: read_value_def parse_defs)

lemma read_value_example_2:
  "read_value \<lparr>fname = ''2020-01-02.csv'', read_csv = Inr [[Some 80]]\<rparr> = Inr (737426, Some 80)"
  by (simp add: read_value_def parse_defs)

lemma read_value_example_3:
  "read_value \<lparr>fname = ''2020-01-02.csv'', read_csv = Inr [[None, Some 3], [Some 4]]\<rparr>
   = Inr (737426, Some 3)"
  by (simp add: read_value_def parse_defs)

lemma read_value_example_4:
  "read_value \<lparr>fname = ''summary.csv'', read_csv = Inr [[Some 1]]\<rparr> = Inl ValueError"
  by (simp add: read_value_def parse_defs)

lemma read_value_example_5:
  "read_value \<lparr>fname = ''2020-01-03.csv'', read_csv = Inl ReadError\<rparr> = Inl ReadError"
  by (simp add: read_value_def parse_defs)

lemma preprocess_data_example_1:
  "preprocess_data [(''PR'', [\<lparr>fname = ''2020-01-01.csv'', read_csv = Inr [[None]]\<rparr>])]
   = [\<lparr>Date = 737425, GHI = None, PR = None\<rparr>]"
  by (simp add: merge_defs read_value_example_1)

lemma preprocess_data_example_2:
  "preprocess_data
     [(''PR'', [\<lparr>fname = ''2020-01-02.csv'', read_csv = Inr [[Some 80]]\<rparr>,
                \<lparr>fname = ''2020-01-01.csv'', read_csv = Inr [[None]]\<rparr>]),
      (''GHI'', [\<lparr>fname = ''2020-01-02.csv'', read_csv = Inr [[None, Some 3], [Some 4]]\<rparr>,
                 \<lparr>fname = ''summary.csv'', read_csv = Inr [[Some 1]]\<rparr>])]
   = [\<lparr>Date = 737425, GHI = None, PR = None\<rparr>, \<lparr>Date = 737426, GHI = Some 3, PR = Some 80\<rparr>]"
  by (simp add: merge_defs read_value_example_1 read_value_example_2 read_value_example_3
      read_value_example_4)

subsection \<open>C9: the series is strictly ascending by date\<close>

text \<open>
  C9. The table that \<^verbatim>\<open>preprocess_data\<close> returns is sorted strictly ascending by date:
  no two records share a date, since the date is the key of the dictionary that the records
  are made from, and the rows are sorted by date before they are returned.
\<close>

theorem series_strictly_ascending:
  "sorted_wrt (<) (map Date (preprocess_data base_dir))
   \<and> distinct (map Date (preprocess_data base_dir))"
proof -
  have "sorted_wrt (<) (map Date (preprocess_data base_dir))"
    by (rule sorted_preprocess_data)
  then show ?thesis by (simp add: strict_sorted_iff)
qed

lemma not_skipped_iff:
  "(\<not> endswith (fname f) ''.csv'' \<or> (\<exists>e. read_value f = Inl e))
   = (\<not> (endswith (fname f) ''.csv'' \<and> (\<exists>d v. read_value f = Inr (d, v))))"
  by (cases "read_value f") auto

lemma preprocess_data_empty_iff:
  "preprocess_data base_dir = [] \<longleftrightarrow>
     (\<forall>f\<in>set (os_walk base_dir ''PR'') \<union> set (os_walk base_dir ''GHI'').
        \<not> endswith (fname f) ''.csv'' \<or> (\<exists>e. read_value f = Inl e))"
proof -
  have "preprocess_data base_dir = [] \<longleftrightarrow> set (preprocess_data base_dir) = {}"
    by simp
  also have "\<dots> \<longleftrightarrow> Date ` set (preprocess_data base_dir) = {}" by simp
  also have "\<dots> \<longleftrightarrow>
     {d. \<exists>f\<in>set (os_walk base_dir ''PR'') \<union> set (os_walk base_dir ''GHI'').
           endswith (fname f) ''.csv'' \<and> (\<exists>v. read_value f = Inr (d, v))} = {}"
    by (simp only: Date_preprocess_data keys_collect)
  also have "\<dots> \<longleftrightarrow>
     (\<forall>f\<in>set (os_walk base_dir ''PR'') \<union> set (os_walk base_dir ''GHI'').
        \<not> (endswith (fname f) ''.csv'' \<and> (\<exists>d v. read_value f = Inr (d, v))))"
    by blast
  finally show ?thesis by (simp only: not_skipped_iff)
qed

lemma main_None_iff: "main base_dir = None \<longleftrightarrow> preprocess_data base_dir = []"
  by (simp add: main_def plot_pr_graph_def Let_def)

lemma read_value_example_6:
  "read_value \<lparr>fname = ''2020-01-01.csv'', read_csv = Inr [[None, None]]\<rparr> = Inr (737425, None)"
  by (simp add: read_value_def parse_defs)

lemma preprocess_data_example_3:
  "preprocess_data
     [(''PR'', [\<lparr>fname = ''2020-01-01.csv'', read_csv = Inr [[None]]\<rparr>]),
      (''GHI'', [\<lparr>fname = ''2020-01-01.csv'', read_csv = Inr [[None, None]]\<rparr>])]
   = [\<lparr>Date = 737425, GHI = None, PR = None\<rparr>]"
  by (simp add: merge_defs read_value_example_1 read_value_example_6)

lemma main_points:
  "preprocess_data base_dir \<noteq> [] \<Longrightarrow>
   map_option points (main base_dir) = Some (derive (sort_key Date (preprocess_data base_dir)))"
  by (simp add: main_def plot_pr_graph_def Let_def)

subsection \<open>C8: no file, no chart\<close>

text \<open>
  C8 as stated fails: with one file in each folder that is named by a date and read without
  an exception, but holds no numeric value, no valid file is found in either category; yet
  the table has a record for the date, with both values missing, and
  \<^verbatim>\<open>plot_pr_graph\<close> derives the columns and draws the chart.
\<close>

theorem no_numeric_value_counterexample:
  "read_value \<lparr>fname = ''2020-01-01.csv'', read_csv = Inr [[None]]\<rparr> = Inr (737425, None)
   \<and> read_value \<lparr>fname = ''2020-01-01.csv'', read_csv = Inr [[None, None]]\<rparr>
       = Inr (737425, None)
   \<and> preprocess_data
        [(''PR'', [\<lparr>fname = ''2020-01-01.csv'', read_csv = Inr [[None]]\<rparr>]),
         (''GHI'', [\<lparr>fname = ''2020-01-01.csv'', read_csv = Inr [[None, None]]\<rparr>])]
       = [\<lparr>Date = 737425, GHI = None, PR = None\<rparr>]
   \<and> map_option points
        (main
          [(''PR'', [\<lparr>fname = ''2020-01-01.csv'', read_csv = Inr [[None]]\<rparr>]),
           (''GHI'', [\<lparr>fname = ''2020-01-01.csv'', read_csv = Inr [[None, None]]\<rparr>])])
       = Some [\<lparr>Date = 737425, GHI = None, PR = None, PR_MA_30 = None, Budget_PR = 73.9,
                 Color = ''gray''\<rparr>]"
proof -
  let ?d = "[(''PR'', [\<lparr>fname = ''2020-01-01.csv'', read_csv = Inr [[None]]\<rparr>]),
             (''GHI'', [\<lparr>fname = ''2020-01-01.csv'', read_csv = Inr [[None, None]]\<rparr>])]"
  note e = preprocess_data_example_3
  have "map_option points (main ?d) = Some (derive (sort_key Date (preprocess_data ?d)))"
    by (rule main_points) (simp add: e)
  also have "derive (sort_key Date (preprocess_data ?d))
      = [\<lparr>Date = 737425, GHI = None, PR = None, PR_MA_30 = None, Budget_PR = 73.9,
           Color = ''gray''\<rparr>]"
    unfolding e
    by (simp add: derive_single rolling_mean_at_def rolling_window_def get_budget_def start_eq
        get_color_def)
  finally show ?thesis
    using read_value_example_1 read_value_example_6 e by simp
qed

text \<open>
  C8, amended. When no file is found in either folder, or every file that is found is
  skipped by \<^verbatim>\<open>preprocess_data\<close> (its name does not end in \<open>.csv\<close>, or its name is not
  a date or its content cannot be read, which raises inside the \<^verbatim>\<open>try\<close> block),
  \<^verbatim>\<open>preprocess_data\<close> returns the empty table and \<^verbatim>\<open>plot_pr_graph\<close> returns at once:
  nothing is derived, nothing is drawn, and no exception is raised. A file that is named by
  a date and read without an exception is not skipped, also when it holds no numeric value:
  then the table is not empty and the chart is derived and drawn.
\<close>

theorem empty_input_short_circuit:
  "((\<forall>f\<in>set (os_walk base_dir ''PR'') \<union> set (os_walk base_dir ''GHI'').
        \<not> endswith (fname f) ''.csv'' \<or> (\<exists>e. read_value f = Inl e)) \<longrightarrow>
      preprocess_data base_dir = [] \<and> main base_dir = None)
   \<and> preprocess_data [] = [] \<and> main [] = None
   \<and> plot_pr_graph [] = None
   \<and> ((\<exists>f\<in>set (os_walk base_dir ''PR'') \<union> set (os_walk base_dir ''GHI'').
          endswith (fname f) ''.csv'' \<and> (\<exists>d v. read_value f = Inr (d, v))) \<longrightarrow>
        preprocess_data base_dir \<noteq> [] \<and> main base_dir \<noteq> None)"
proof -
  have 1: "preprocess_data base_dir = [] \<and> main base_dir = None"
    if "\<forall>f\<in>set (os_walk base_dir ''PR'') \<union> set (os_walk base_dir ''GHI'').
          \<not> endswith (fname f) ''.csv'' \<or> (\<exists>e. read_value f = Inl e)"
    using preprocess_data_skipped [OF that] by (simp add: main_def plot_pr_graph_empty)
  have 2: "preprocess_data [] = []"
    by (rule preprocess_data_skipped) (simp add: os_walk_def)
  then have 3: "main [] = None" by (simp add: main_def plot_pr_graph_empty)
  have 4: "preprocess_data base_dir \<noteq> [] \<and> main base_dir \<noteq> None"
    if "\<exists>f\<in>set (os_walk base_dir ''PR'') \<union> set (os_walk base_dir ''GHI'').
          endswith (fname f) ''.csv'' \<and> (\<exists>d v. read_value f = Inr (d, v))"
  proof -
    from that have "\<not> (\<forall>f\<in>set (os_walk base_dir ''PR'') \<union> set (os_walk base_dir ''GHI'').
        \<not> endswith (fname f) ''.csv'' \<or> (\<exists>e. read_value f = Inl e))"
      unfolding not_skipped_iff by blast
    then have "preprocess_data base_dir \<noteq> []"
      using preprocess_data_empty_iff [of base_dir] by blast
    then show ?thesis using main_None_iff [of base_dir] by blast
  qed
  from 1 2 3 4 plot_pr_graph_empty show ?thesis by blast
qed

theorem empty_input_short_circuit_witness:
  "os_walk [(''PR'', [\<lparr>fname = ''notes.txt'', read_csv = Inr [[Some 1]]\<rparr>,
                      \<lparr>fname = ''summary.csv'', read_csv = Inr [[Some 1]]\<rparr>,
                      \<lparr>fname = ''2020-01-03.csv'', read_csv = Inl ReadError\<rparr>]),
             (''GHI'', [])] ''PR''
     = [\<lparr>fname = ''notes.txt'', read_csv = Inr [[Some 1]]\<rparr>,
        \<lparr>fname = ''summary.csv'', read_csv = Inr [[Some 1]]\<rparr>,
        \<lparr>fname = ''2020-01-03.csv'', read_csv = Inl ReadError\<rparr>]
   \<and> os_walk [(''PR'', [\<lparr>fname = ''notes.txt'', read_csv = Inr [[Some 1]]\<rparr>,
                        \<lparr>fname = ''summary.csv'', read_csv = Inr [[Some 1]]\<rparr>,
                        \<lparr>fname = ''2020-01-03.csv'', read_csv = Inl ReadError\<rparr>]),
               (''GHI'', [])] ''GHI'' = []
   \<and> \<not> endswith ''notes.txt'' ''.csv''
   \<and> read_value \<lparr>fname = ''summary.csv'', read_csv = Inr [[Some 1]]\<rparr> = Inl ValueError
   \<and> read_value \<lparr>fname = ''2020-01-03.csv'', read_csv = Inl ReadError\<rparr> = Inl ReadError
   \<and> preprocess_data
        [(''PR'', [\<lparr>fname = ''notes.txt'', read_csv = Inr [[Some 1]]\<rparr>,
                   \<lparr>fname = ''summary.csv'', read_csv = Inr [[Some 1]]\<rparr>,
                   \<lparr>fname = ''2020-01-03.csv'', read_csv = Inl ReadError\<rparr>]),
         (''GHI'', [])] = []
   \<and> main
        [(''PR'', [\<lparr>fname = ''notes.txt'', read_csv = Inr [[Some 1]]\<rparr>,
                   \<lparr>fname = ''summary.csv'', read_csv = Inr [[Some 1]]\<rparr>,
                   \<lparr>fname = ''2020-01-03.csv'', read_csv = Inl ReadError\<rparr>]),
         (''GHI'', [])] = None
   \<and> os_walk [(''PR'', [\<lparr>fname = ''2020-01-01.csv'', read_csv = Inr [[None]]\<rparr>])] ''PR''
       = [\<lparr>fname = ''2020-01-01.csv'', read_csv = Inr [[None]]\<rparr>]
   \<and> endswith ''2020-01-01.csv'' ''.csv''
   \<and> read_value \<lparr>fname = ''2020-01-01.csv'', read_csv = Inr [[None]]\<rparr> = Inr (737425, None)
   \<and> preprocess_data [(''PR'', [\<lparr>fname = ''2020-01-01.csv'', read_csv = Inr [[None]]\<rparr>])]
       \<noteq> []
   \<and> main [(''PR'', [\<lparr>fname = ''2020-01-01.csv'', read_csv = Inr [[None]]\<rparr>])] \<noteq> None"
proof -
  let ?d = "[(''PR'', [\<lparr>fname = ''notes.txt'', read_csv = Inr [[Some 1]]\<rparr>,
                       \<lparr>fname = ''summary.csv'', read_csv = Inr [[Some 1]]\<rparr>,
                       \<lparr>fname = ''2020-01-03.csv'', read_csv = Inl ReadError\<rparr>]),
              (''GHI'', [])]"
  have w: "os_walk ?d ''PR'' =
        [\<lparr>fname = ''notes.txt'', read_csv = Inr [[Some 1]]\<rparr>,
         \<lparr>fname = ''summary.csv'', read_csv = Inr [[Some 1]]\<rparr>,
         \<lparr>fname = ''2020-01-03.csv'', read_csv = Inl ReadError\<rparr>]"
    "os_walk ?d ''GHI'' = []"
    by (simp_all add: os_walk_def)
  have n: "\<not> endswith ''notes.txt'' ''.csv''" by (simp add: endswith_def)
  have h: "\<forall>f\<in>set (os_walk ?d ''PR'') \<union> set (os_walk ?d ''GHI'').
        \<not> endswith (fname f) ''.csv'' \<or> (\<exists>e. read_value f = Inl e)"
    unfolding w using n read_value_example_4 read_value_example_5 by simp
  with empty_input_short_circuit [of ?d]
  have "preprocess_data ?d = [] \<and> main ?d = None" by blast
  then have A: "preprocess_data ?d = []" "main ?d = None" by blast+
  let ?f = "\<lparr>fname = ''2020-01-01.csv'', read_csv = Inr [[None]]\<rparr>"
  let ?a = "[(''PR'', [?f])]"
  have wa: "os_walk ?a ''PR'' = [?f]" by (simp add: os_walk_def)
  have c: "endswith ''2020-01-01.csv'' ''.csv''" by (simp add: endswith_def)
  have "\<exists>f\<in>set (os_walk ?a ''PR'') \<union> set (os_walk ?a ''GHI'').
          endswith (fname f) ''.csv'' \<and> (\<exists>d v. read_value f = Inr (d, v))"
    unfolding wa using c read_value_example_1 by simp
  with empty_input_short_circuit [of ?a]
  have B: "preprocess_data ?a \<noteq> []" "main ?a \<noteq> None" by blast+
  from w n read_value_example_4 read_value_example_5 A wa c read_value_example_1 B
  show ?thesis by blast
qed

subsection \<open>C7: which dates become records\<close>

text \<open>
  C7 as stated fails: a PR file named \<open>2020-01-01.csv\<close> whose only numeric column holds no
  value is read without an exception; its value is \<^verbatim>\<open>None\<close>, which is stored for its
  date, and the series has a record for 2020-01-01 with both GHI and PR missing.
\<close>

theorem all_missing_record_counterexample:
  "preprocess_data [(''PR'', [\<lparr>fname = ''2020-01-01.csv'', read_csv = Inr [[None]]\<rparr>])]
   = [\<lparr>Date = 737425, GHI = None, PR = None\<rparr>]"
  by (rule preprocess_data_example_1)

text \<open>
  C7, amended. The dates of the series are exactly the dates of the files, of either
  folder, whose name ends in \<open>.csv\<close> and parses as a date and whose content is read without
  an exception. Every defined PR (GHI) value of a record is the value of such a file of the
  PR (GHI) folder for the date of the record. A file with no valid numeric cell has the
  undefined value, which is stored like any other: a date whose files yield no numeric value
  in either folder is materialized as a record with both GHI and PR missing, and only a
  date with no such file has no record.
\<close>

theorem materialized_records:
  "Date ` set (preprocess_data base_dir) =
     {d. \<exists>f\<in>set (os_walk base_dir ''PR'') \<union> set (os_walk base_dir ''GHI'').
           endswith (fname f) ''.csv'' \<and> (\<exists>v. read_value f = Inr (d, v))}
   \<and> (\<forall>r\<in>set (preprocess_data base_dir).
         (PR r = Some v \<longrightarrow>
            (\<exists>f\<in>set (os_walk base_dir ''PR'').
               endswith (fname f) ''.csv'' \<and> read_value f = Inr (Date r, Some v)))
       \<and> (GHI r = Some v \<longrightarrow>
            (\<exists>f\<in>set (os_walk base_dir ''GHI'').
               endswith (fname f) ''.csv'' \<and> read_value f = Inr (Date r, Some v))))
   \<and> (strptime (replace_csv (fname f)) = Inr d \<and> read_csv f = Inr tbl
        \<and> dropna (concat tbl) = [] \<longrightarrow>
      read_value f = Inr (d, None))"
proof -
  have "Date ` set (preprocess_data base_dir) =
     {d. \<exists>f\<in>set (os_walk base_dir ''PR'') \<union> set (os_walk base_dir ''GHI'').
           endswith (fname f) ''.csv'' \<and> (\<exists>v. read_value f = Inr (d, v))}"
    by (simp only: Date_preprocess_data keys_collect)
  moreover have "\<forall>r\<in>set (preprocess_data base_dir).
         (PR r = Some v \<longrightarrow>
            (\<exists>f\<in>set (os_walk base_dir ''PR'').
               endswith (fname f) ''.csv'' \<and> read_value f = Inr (Date r, Some v)))
       \<and> (GHI r = Some v \<longrightarrow>
            (\<exists>f\<in>set (os_walk base_dir ''GHI'').
               endswith (fname f) ''.csv'' \<and> read_value f = Inr (Date r, Some v)))"
    using preprocess_data_value [of _ base_dir v] by blast
  moreover have "read_value f = Inr (d, None)"
    if "strptime (replace_csv (fname f)) = Inr d \<and> read_csv f = Inr tbl
        \<and> dropna (concat tbl) = []"
    using that read_value_no_cell [of f d tbl] by blast
  ultimately show ?thesis by blast
qed

theorem materialized_records_witness:
  "preprocess_data
        [(''PR'', [\<lparr>fname = ''2020-01-02.csv'', read_csv = Inr [[Some 80]]\<rparr>,
                   \<lparr>fname = ''2020-01-01.csv'', read_csv = Inr [[None]]\<rparr>]),
         (''GHI'', [\<lparr>fname = ''2020-01-02.csv'', read_csv = Inr [[None, Some 3], [Some 4]]\<rparr>,
                    \<lparr>fname = ''summary.csv'', read_csv = Inr [[Some 1]]\<rparr>])]
     = [\<lparr>Date = 737425, GHI = None, PR = None\<rparr>, \<lparr>Date = 737426, GHI = Some 3, PR = Some 80\<rparr>]
   \<and> (\<exists>f\<in>set (os_walk
        [(''PR'', [\<lparr>fname = ''2020-01-02.csv'', read_csv = Inr [[Some 80]]\<rparr>,
                   \<lparr>fname = ''2020-01-01.csv'', read_csv = Inr [[None]]\<rparr>]),
         (''GHI'', [\<lparr>fname = ''2020-01-02.csv'', read_csv = Inr [[None, Some 3], [Some 4]]\<rparr>,
                    \<lparr>fname = ''summary.csv'', read_csv = Inr [[Some 1]]\<rparr>])] ''PR'').
         endswith (fname f) ''.csv'' \<and> read_value f = Inr (737426, Some 80))
   \<and> (\<exists>f\<in>set (os_walk
        [(''PR'', [\<lparr>fname = ''2020-01-02.csv'', read_csv = Inr [[Some 80]]\<rparr>,
                   \<lparr>fname = ''2020-01-01.csv'', read_csv = Inr [[None]]\<rparr>]),
         (''GHI'', [\<lparr>fname = ''2020-01-02.csv'', read_csv = Inr [[None, Some 3], [Some 4]]\<rparr>,
                    \<lparr>fname = ''summary.csv'', read_csv = Inr [[Some 1]]\<rparr>])] ''GHI'').
         endswith (fname f) ''.csv'' \<and> read_value f = Inr (737426, Some 3))
   \<and> strptime (replace_csv ''2020-01-01.csv'') = Inr 737425
   \<and> dropna (concat [[None :: real option]]) = []
   \<and> read_value \<lparr>fname = ''2020-01-01.csv'', read_csv = Inr [[None]]\<rparr> = Inr (737425, None)"
proof -
  let ?d = "[(''PR'', [\<lparr>fname = ''2020-01-02.csv'', read_csv = Inr [[Some 80]]\<rparr>,
                   \<lparr>fname = ''2020-01-01.csv'', read_csv = Inr [[None]]\<rparr>]),
         (''GHI'', [\<lparr>fname = ''2020-01-02.csv'', read_csv = Inr [[None, Some 3], [Some 4]]\<rparr>,
                    \<lparr>fname = ''summary.csv'', read_csv = Inr [[Some 1]]\<rparr>])]"
  let ?r = "\<lparr>Date = 737426, GHI = Some 3, PR = Some 80\<rparr>"
  let ?f = "\<lparr>fname = ''2020-01-01.csv'', read_csv = Inr [[None]]\<rparr>"
  note e = preprocess_data_example_2
  have r: "?r \<in> set (preprocess_data ?d)" unfolding e by simp
  from materialized_records [of ?d 80] r
  have 1: "\<exists>f\<in>set (os_walk ?d ''PR'').
         endswith (fname f) ''.csv'' \<and> read_value f = Inr (737426, Some 80)"
    by fastforce
  from materialized_records [of ?d 3] r
  have 2: "\<exists>f\<in>set (os_walk ?d ''GHI'').
         endswith (fname f) ''.csv'' \<and> read_value f = Inr (737426, Some 3)"
    by fastforce
  have 3: "strptime (replace_csv ''2020-01-01.csv'') = Inr 737425"
    by (simp add: parse_defs)
  have 4: "dropna (concat [[None :: real option]]) = []" by simp
  from materialized_records [of _ _ ?f 737425 "[[None]]"] 3 4
  have 5: "read_value ?f = Inr (737425, None)" by simp
  from e 1 2 3 4 5 show ?thesis by blast
qed

end
